theory Spec2Isabelle
  imports Complex_Main "HOL-Library.Char_ord" "HOL-Library.List_Lexorder" "HOL-Library.Multiset"
    "HOL-Library.Monad_Syntax"
begin

section \<open>Values\<close>

text \<open>
  A float64 cell of a table. The arithmetic is that of the reals; the one special value
  the analysis meets is the not-a-number marker, kept apart as \<open>NaN\<close>.
\<close>

datatype float64 = NaN | Num real

fun the_num :: "float64 \<Rightarrow> real" where
  "the_num (Num x) = x"
| "the_num NaN = 0"

fun isna :: "float64 \<Rightarrow> bool" where
  "isna NaN = True"
| "isna (Num x) = False"

fun fabs :: "float64 \<Rightarrow> float64" where
  "fabs NaN = NaN"
| "fabs (Num x) = Num \<bar>x\<bar>"

text \<open>Rounding to the nearest integer, halves to the even neighbour (NumPy's \<open>rint\<close>).\<close>

definition rint :: "real \<Rightarrow> int" where
  "rint x = (let f = \<lfloor>x\<rfloor>; d = x - of_int f
             in if d < 1 / 2 then f
                else if 1 / 2 < d then f + 1
                else if even f then f else f + 1)"

text \<open>\<open>round(decimals)\<close> on one cell: scale, round to an integer, scale back; NaN stays NaN.\<close>

fun round_dec :: "nat \<Rightarrow> float64 \<Rightarrow> float64" where
  "round_dec d NaN = NaN"
| "round_dec d (Num x) = Num (of_int (rint (x * 10 ^ d)) / 10 ^ d)"

section \<open>The random source\<close>

text \<open>
  The global generator of \<open>np.random\<close>: after \<open>seed k\<close> it hands out a fixed sequence of
  standard normal deviates. The sequence itself belongs to the library and is a parameter
  \<open>gauss k i\<close> (the \<open>i\<close>-th deviate after seeding with \<open>k\<close>); the state records the seed
  in force and how many deviates have been consumed.
\<close>

record rng =
  seed_of :: nat
  drawn :: nat

type_synonym gauss = "nat \<Rightarrow> nat \<Rightarrow> real"

definition np_random_seed :: "nat \<Rightarrow> rng \<Rightarrow> rng" where
  "np_random_seed k s = \<lparr>seed_of = k, drawn = 0\<rparr>"

definition np_random_normal :: "gauss \<Rightarrow> real \<Rightarrow> real \<Rightarrow> nat \<Rightarrow> rng \<Rightarrow> real list \<times> rng" where
  "np_random_normal g loc scale sz s =
     (map (\<lambda>i. loc + scale * g (seed_of s) (drawn s + i)) [0..<sz],
      s\<lparr>drawn := drawn s + sz\<rparr>)"

text \<open>\<open>np.clip(a, a_min, a_max)\<close>, a bound of \<open>None\<close> meaning no bound on that side.\<close>

definition clip1 :: "real option \<Rightarrow> real option \<Rightarrow> real \<Rightarrow> real" where
  "clip1 a_min a_max x =
     (let y = (case a_min of None \<Rightarrow> x | Some lo \<Rightarrow> max x lo)
      in case a_max of None \<Rightarrow> y | Some hi \<Rightarrow> min y hi)"

definition np_clip :: "real list \<Rightarrow> real option \<Rightarrow> real option \<Rightarrow> real list" where
  "np_clip a a_min a_max = map (clip1 a_min a_max) a"

section \<open>Data frames\<close>

text \<open>
  A numeric frame: the row labels and the named columns, in column order. The frames of
  this program are built from equally long columns.
\<close>

record dataframe =
  index :: "nat list"
  columns :: "(string \<times> real list) list"

definition DataFrame :: "(string \<times> real list) list \<Rightarrow> dataframe" where
  "DataFrame d =
     \<lparr>index = [0..<(case d of [] \<Rightarrow> 0 | c # _ \<Rightarrow> length (snd c))], columns = d\<rparr>"

text \<open>Python's slice \<open>xs[start:stop]\<close> with step 1; \<open>None\<close> is an omitted bound.\<close>

definition py_bound :: "nat \<Rightarrow> int \<Rightarrow> nat" where
  "py_bound len k = (if k < 0 then nat (max (int len + k) 0) else min (nat k) len)"

definition py_slice :: "int option \<Rightarrow> int option \<Rightarrow> 'a list \<Rightarrow> 'a list" where
  "py_slice start stop xs =
     (let lo = (case start of None \<Rightarrow> 0 | Some k \<Rightarrow> py_bound (length xs) k);
          hi = (case stop of None \<Rightarrow> length xs | Some k \<Rightarrow> py_bound (length xs) k)
      in drop lo (take hi xs))"

definition iloc :: "int option \<Rightarrow> int option \<Rightarrow> dataframe \<Rightarrow> dataframe" where
  "iloc start stop df =
     \<lparr>index = py_slice start stop (index df),
      columns = map (\<lambda>(name, xs). (name, py_slice start stop xs)) (columns df)\<rparr>"

text \<open>\<open>DataFrame.tail(n)\<close>: \<open>iloc[0:0]\<close> for \<open>n = 0\<close>, \<open>iloc[-n:]\<close> otherwise.\<close>

definition tail :: "int \<Rightarrow> dataframe \<Rightarrow> dataframe" where
  "tail n df = (if n = 0 then iloc (Some 0) (Some 0) df else iloc (Some (- n)) None df)"

text \<open>\<open>reset_index(drop=True)\<close>: the row labels become \<open>0, 1, ...\<close>, the data stay.\<close>

definition reset_index_drop :: "dataframe \<Rightarrow> dataframe" where
  "reset_index_drop df = df\<lparr>index := [0..<length (index df)]\<rparr>"

text \<open>The records of a frame, row by row, each with its values in column order.\<close>

definition records :: "dataframe \<Rightarrow> real list list" where
  "records df = map (\<lambda>i. map (\<lambda>c. snd c ! i) (columns df)) [0..<length (index df)]"

section \<open>Cell 1: the dataset and the subset selector\<close>

definition RND :: nat where
  "RND = 42"

definition n_rows :: nat where
  "n_rows = 74"

text \<open>
  The first cell run from a generator in state \<open>s0\<close>: seed, then draw and clip the five
  columns in the order the dictionary lists them.
\<close>

definition cell1 :: "gauss \<Rightarrow> rng \<Rightarrow> dataframe \<times> rng" where
  "cell1 g s0 =
     (let s1 = np_random_seed RND s0;
          (c1, s2) = np_random_normal g 12 5 n_rows s1;
          (c2, s3) = np_random_normal g 300 90 n_rows s2;
          (c3, s4) = np_random_normal g 6 (5 / 2) n_rows s3;
          (c4, s5) = np_random_normal g 85 8 n_rows s4;
          (c5, s6) = np_random_normal g 28 7 n_rows s5
      in (DataFrame
            [(''Supplier_Lead_Time'', np_clip c1 (Some 1) None),
             (''Inventory_Levels'', np_clip c2 (Some 0) None),
             (''Order_Frequency'', np_clip c3 (Some (1 / 2)) None),
             (''Delivery_Performance'', np_clip c4 (Some 40) (Some 100)),
             (''Cost_Per_Unit'', np_clip c5 (Some 1) None)],
          s6))"

definition df_all :: "gauss \<Rightarrow> rng \<Rightarrow> dataframe" where
  "df_all g s0 = fst (cell1 g s0)"

text \<open>\<open>get_recent_df\<close>, with the global table it reads as its first argument.\<close>

definition get_recent_df :: "dataframe \<Rightarrow> int \<Rightarrow> dataframe" where
  "get_recent_df df n_rows_to_use =
     (let n = (if n_rows_to_use < 2 then 2 else n_rows_to_use)
      in reset_index_drop (tail n df))"

section \<open>Labelled tables and the statistics of pandas\<close>

text \<open>
  A table whose rows and columns both carry string labels (the output of \<open>describe\<close>
  and of \<open>corr\<close>): the columns in order, each with its cells by row label.
\<close>

type_synonym table = "(string \<times> (string \<times> float64) list) list"

datatype error = KeyError string | ValueError

fun lookup :: "string \<Rightarrow> (string \<times> 'a) list \<Rightarrow> error + 'a" where
  "lookup k [] = Inl (KeyError k)"
| "lookup k ((k', v) # r) = (if k = k' then Inr v else lookup k r)"

fun mapE :: "('a \<Rightarrow> error + 'b) \<Rightarrow> 'a list \<Rightarrow> error + 'b list" where
  "mapE f [] = Inr []"
| "mapE f (x # xs) =
     (case f x of Inl e \<Rightarrow> Inl e
      | Inr y \<Rightarrow> (case mapE f xs of Inl e \<Rightarrow> Inl e | Inr ys \<Rightarrow> Inr (y # ys)))"

definition mean :: "real list \<Rightarrow> float64" where
  "mean xs = (if xs = [] then NaN else Num (sum_list xs / real (length xs)))"

text \<open>The sample standard deviation (\<open>ddof = 1\<close>); undefined below two observations.\<close>

definition std :: "real list \<Rightarrow> float64" where
  "std xs =
     (if length xs < 2 then NaN
      else let m = sum_list xs / real (length xs)
           in Num (sqrt ((\<Sum>x\<leftarrow>xs. (x - m)\<^sup>2) / real (length xs - 1))))"

definition fmin :: "real list \<Rightarrow> float64" where
  "fmin xs = (case xs of [] \<Rightarrow> NaN | x # r \<Rightarrow> Num (fold min r x))"

definition fmax :: "real list \<Rightarrow> float64" where
  "fmax xs = (case xs of [] \<Rightarrow> NaN | x # r \<Rightarrow> Num (fold max r x))"

text \<open>The quantile with linear interpolation between the two nearest order statistics.\<close>

definition quantile :: "real \<Rightarrow> real list \<Rightarrow> float64" where
  "quantile q xs =
     (if xs = [] then NaN
      else let s = sort xs;
               pos = q * real (length xs - 1);
               lo = nat \<lfloor>pos\<rfloor>;
               hi = nat \<lceil>pos\<rceil>
           in Num (s ! lo + (s ! hi - s ! lo) * (pos - real lo)))"

text \<open>\<open>DataFrame.describe()\<close>: one column per field, one row per statistic.\<close>

definition describe :: "dataframe \<Rightarrow> error + table" where
  "describe df =
     (if columns df = [] then Inl ValueError
      else Inr (map (\<lambda>(name, xs).
                  (name,
                   [(''count'', Num (real (length xs))),
                    (''mean'', mean xs),
                    (''std'', std xs),
                    (''min'', fmin xs),
                    (''25%'', quantile (1 / 4) xs),
                    (''50%'', quantile (1 / 2) xs),
                    (''75%'', quantile (3 / 4) xs),
                    (''max'', fmax xs)]))
                (columns df)))"

text \<open>\<open>t.loc[labels]\<close>: the rows with these labels, in the order asked for.\<close>

definition loc_rows :: "string list \<Rightarrow> table \<Rightarrow> error + table" where
  "loc_rows labels t =
     mapE (\<lambda>(c, col).
             case mapE (\<lambda>l. case lookup l col of Inl e \<Rightarrow> Inl e | Inr v \<Rightarrow> Inr (l, v)) labels of
               Inl e \<Rightarrow> Inl e
             | Inr col' \<Rightarrow> Inr (c, col'))
          t"

text \<open>\<open>t.T\<close>: rows become columns. The row labels are those of the first column.\<close>

definition transpose_T :: "table \<Rightarrow> table" where
  "transpose_T t =
     (case t of [] \<Rightarrow> []
      | (c0, col0) # _ \<Rightarrow>
          map (\<lambda>i. (fst (col0 ! i), map (\<lambda>(c, col). (c, snd (col ! i))) t))
              [0..<length col0])"

definition round_table :: "nat \<Rightarrow> table \<Rightarrow> table" where
  "round_table d t = map (\<lambda>(c, col). (c, map (\<lambda>(r, v). (r, round_dec d v)) col)) t"

text \<open>\<open>t.loc[row, col]\<close>.\<close>

definition loc2 :: "table \<Rightarrow> string \<Rightarrow> string \<Rightarrow> error + float64" where
  "loc2 t row col = (case lookup col t of Inl e \<Rightarrow> Inl e | Inr cells \<Rightarrow> lookup row cells)"

text \<open>
  The Pearson coefficient of two columns as \<open>DataFrame.corr()\<close> computes it: the sum of
  the products of the deviations over the root of the product of the two sums of squared
  deviations, cut to \<open>[-1, 1]\<close>; NaN when there is no observation or the divisor is zero.
\<close>

definition pearson :: "real list \<Rightarrow> real list \<Rightarrow> float64" where
  "pearson xs ys =
     (let n = real (length xs);
          meanx = sum_list xs / n;
          meany = sum_list ys / n;
          ssqdm_x = (\<Sum>x\<leftarrow>xs. (x - meanx)\<^sup>2);
          ssqdm_y = (\<Sum>y\<leftarrow>ys. (y - meany)\<^sup>2);
          covxy = (\<Sum>(x, y)\<leftarrow>zip xs ys. (x - meanx) * (y - meany));
          divisor = sqrt (ssqdm_x * ssqdm_y)
      in if length xs < 1 then NaN
         else if divisor \<noteq> 0 then
           (let val = covxy / divisor
            in Num (if val > 1 then 1 else if val < - 1 then - 1 else val))
         else NaN)"

definition corr :: "dataframe \<Rightarrow> table" where
  "corr df = map (\<lambda>(a, xs). (a, map (\<lambda>(b, ys). (b, pearson xs ys)) (columns df))) (columns df)"

text \<open>
  \<open>t.unstack().reset_index()\<close>: one row per cell, column label first, then row label,
  then the value, the cells of the first column first.
\<close>

definition unstack :: "table \<Rightarrow> (string \<times> string \<times> float64) list" where
  "unstack t = concat (map (\<lambda>(c, col). map (\<lambda>(r, v). (c, r, v)) col) t)"

text \<open>
  \<open>sort_values(by, ascending=False)\<close> on a float key: the rows whose key is a number,
  reversed, sorted by increasing key and reversed again, then the rows whose key is NaN
  in frame order. Rows of equal key keep their frame order.
\<close>

definition sort_values_desc :: "('a \<Rightarrow> float64) \<Rightarrow> 'a list \<Rightarrow> 'a list" where
  "sort_values_desc key rows =
     (let non_nans = filter (\<lambda>r. \<not> isna (key r)) rows;
          nans = filter (\<lambda>r. isna (key r)) rows
      in rev (sort_key (\<lambda>r. the_num (key r)) (rev non_nans)) @ nans)"

definition head :: "nat \<Rightarrow> 'a list \<Rightarrow> 'a list" where
  "head n rows = take n rows"

section \<open>Cell 2: the analysis callback\<close>

text \<open>A piece of formatted text: literal text, an integer or a float put into it.\<close>

datatype frag = Str string | IntF int | FloatF float64

text \<open>
  What the callback shows, in order: formatted text, a table, or the heat map, which is
  kept as its title and the table it draws.
\<close>

datatype display = Markdown "frag list" | ShowTable table | Heatmap "frag list" table

definition nl :: string where
  "nl = [CHR 0x0A]"

definition emdash :: string where
  "emdash = [CHR 0xE2, CHR 0x80, CHR 0x94]"

text \<open>The local values of \<open>render_analysis\<close>, each from the line that binds it.\<close>

definition summary_of :: "dataframe \<Rightarrow> error + table" where
  "summary_of current_df =
     (case describe current_df of Inl e \<Rightarrow> Inl e
      | Inr d \<Rightarrow>
          (case loc_rows [''mean'', ''std'', ''min'', ''50%'', ''max''] d of Inl e \<Rightarrow> Inl e
           | Inr sel \<Rightarrow> Inr (round_table 2 (transpose_T sel))))"

definition corr_of :: "dataframe \<Rightarrow> table" where
  "corr_of current_df = round_table 3 (corr current_df)"

definition corr_pairs_of :: "table \<Rightarrow> (string \<times> string \<times> float64 \<times> float64) list" where
  "corr_pairs_of c =
     (let corr_unstack = unstack c;
          corr_pairs = filter (\<lambda>(var1, var2, v). var1 < var2) corr_unstack
      in map (\<lambda>(var1, var2, v). (var1, var2, v, fabs v)) corr_pairs)"

definition abs_corr :: "string \<times> string \<times> float64 \<times> float64 \<Rightarrow> float64" where
  "abs_corr r = snd (snd (snd r))"

definition top_pairs_of :: "table \<Rightarrow> (string \<times> string \<times> float64 \<times> float64) list" where
  "top_pairs_of c = head 3 (sort_values_desc abs_corr (corr_pairs_of c))"

definition pair_line :: "string \<times> string \<times> float64 \<times> float64 \<Rightarrow> frag list" where
  "pair_line r =
     (case r of (var1, var2, v, a) \<Rightarrow>
        [Str ''- **'', Str var1, Str ''** vs **'', Str var2, Str ''**: correlation = **'',
         FloatF v, Str (''**  '' @ nl)])"

definition render_analysis :: "dataframe \<Rightarrow> int \<Rightarrow> error + display list" where
  "render_analysis df n_rows_selected =
     (let current_df = get_recent_df df n_rows_selected in
      (case summary_of current_df of Inl e \<Rightarrow> Inl e
       | Inr summary \<Rightarrow>
      (let c = corr_of current_df in
      (case loc2 summary ''Supplier_Lead_Time'' ''mean'' of Inl e \<Rightarrow> Inl e
       | Inr m1 \<Rightarrow>
      (case loc2 summary ''Inventory_Levels'' ''mean'' of Inl e \<Rightarrow> Inl e
       | Inr m2 \<Rightarrow>
      (case loc2 summary ''Delivery_Performance'' ''mean'' of Inl e \<Rightarrow> Inl e
       | Inr m3 \<Rightarrow>
      (let md = [Str (nl @ ''### Interactive analysis (using last **''),
                 IntF n_rows_selected,
                 Str (''** rows)'' @ nl @ nl @ ''**Observations (dynamically computed):**'' @ nl
                      @ ''- Mean Supplier Lead Time: **''),
                 FloatF m1,
                 Str (''** days  '' @ nl @ ''- Mean Inventory Level: **''),
                 FloatF m2,
                 Str (''** units  '' @ nl @ ''- Delivery Performance (mean): **''),
                 FloatF m3,
                 Str (''** %'' @ nl @ nl @ ''**Top correlations (absolute value):**'' @ nl)];
           top_pairs = top_pairs_of c;
           md = md @ concat (map pair_line top_pairs)
       in Inr [Markdown md,
               Markdown [Str ''**Correlation matrix:**''],
               ShowTable c,
               Heatmap [Str (''Correlation Heatmap '' @ emdash @ '' last ''),
                        IntF n_rows_selected, Str '' rows''] c,
               Markdown [Str ''**Summary statistics (selected subset):**''],
               ShowTable summary])))))))"

section \<open>Well-formed frames and an example run\<close>

text \<open>A frame is aligned when every column is as long as the index.\<close>

definition aligned :: "dataframe \<Rightarrow> bool" where
  "aligned df = (\<forall>c \<in> set (columns df). length (snd c) = length (index df))"

text \<open>
  A sequence of deviates for examples: zero everywhere except in the last five rows of
  each of the five columns.
\<close>

definition example_rows :: "real list list" where
  "example_rows =
     [[1, - 1, 0, 0, 0],
      [9999 / 10000, - 9999 / 10000, 2 / 100, - 2 / 100, 0],
      [1, 1, - 1, - 1, 0],
      [1, 1, 1, 1, - 4],
      [1 / 4, 1 / 4, 1 / 4, 1 / 4, - 1]]"

definition example_gauss :: gauss where
  "example_gauss k i =
     (if k = 42 \<and> i < 370 \<and> 69 \<le> i mod 74
      then example_rows ! (i div 74) ! (i mod 74 - 69) else 0)"

definition example_rng :: rng where
  "example_rng = \<lparr>seed_of = 0, drawn = 0\<rparr>"

text \<open>A column is constant when all its values are the same.\<close>

definition const_col :: "real list \<Rightarrow> bool" where
  "const_col xs = (\<forall>x \<in> set xs. \<forall>y \<in> set xs. x = y)"

text \<open>The five field names, in column order, and a frame over them.\<close>

definition field_names :: "string list" where
  "field_names = [''Supplier_Lead_Time'', ''Inventory_Levels'', ''Order_Frequency'',
                  ''Delivery_Performance'', ''Cost_Per_Unit'']"

definition frame5 :: "nat \<Rightarrow> real list \<Rightarrow> real list \<Rightarrow> real list \<Rightarrow> real list \<Rightarrow> real list \<Rightarrow> dataframe" where
  "frame5 k x1 x2 x3 x4 x5 =
     \<lparr>index = [0..<k],
      columns = [(''Supplier_Lead_Time'', x1), (''Inventory_Levels'', x2),
                 (''Order_Frequency'', x3), (''Delivery_Performance'', x4),
                 (''Cost_Per_Unit'', x5)]\<rparr>"

text \<open>
  A second sequence of deviates: zero except in the last row of Inventory_Levels and of
  Cost_Per_Unit and in the last two rows of Delivery_Performance, where the draws 2 and 3
  both clip to 100. Over the last two rows the other three fields are constant.
\<close>

definition example_gauss2 :: gauss where
  "example_gauss2 k i =
     (if i = 147 \<or> i = 369 then 1 else if i = 294 then 2 else if i = 295 then 3 else 0)"

definition pair_names :: "string \<times> string \<times> float64 \<times> float64 \<Rightarrow> string \<times> string" where
  "pair_names r = (fst r, fst (snd r))"


text \<open>
  The ranking as the specification words it (Statistics Engine): on the Pearson
  coefficients at full precision, before any rounding.
\<close>

definition full_precision_top_pairs :: "dataframe \<Rightarrow> (string \<times> string \<times> float64 \<times> float64) list" where
  "full_precision_top_pairs current_df = top_pairs_of (corr current_df)"

section \<open>The callback over a store of objects\<close>

text \<open>
  To follow which object a statement writes to, the frames live in a store. A frame
  object either owns its data or is a view on the rows of another frame (what
  \<open>iloc\<close> with a slice returns); the tables of \<open>describe\<close> and \<open>corr\<close> and the long
  frame of the unstacked matrix are objects too. A long frame has two label columns and
  any number of float columns, named in order by its list of column names; each row
  carries its two labels and one cell per float column.
\<close>

type_synonym addr = nat

type_synonym long_row = "string \<times> string \<times> float64 list"

datatype obj =
    Frame dataframe
  | View addr int
  | Table table
  | Long "string list" "long_row list"

record store =
  objs :: "addr \<Rightarrow> obj option"
  fresh :: addr

definition alloc :: "obj \<Rightarrow> store \<Rightarrow> (addr \<times> store) option" where
  "alloc v h = Some (fresh h, \<lparr>objs = (objs h)(fresh h \<mapsto> v), fresh = Suc (fresh h)\<rparr>)"

text \<open>Reading a frame; a view reads the rows \<open>iloc[-n:]\<close> of the frame it is a view on.\<close>

definition read_frame :: "store \<Rightarrow> addr \<Rightarrow> dataframe option" where
  "read_frame h a =
     (case objs h a of
        Some (Frame df) \<Rightarrow> Some df
      | Some (View b n) \<Rightarrow> (case objs h b of Some (Frame df) \<Rightarrow> Some (tail n df) | _ \<Rightarrow> None)
      | _ \<Rightarrow> None)"

definition read_table :: "store \<Rightarrow> addr \<Rightarrow> table option" where
  "read_table h a = (case objs h a of Some (Table t) \<Rightarrow> Some t | _ \<Rightarrow> None)"

definition read_long :: "store \<Rightarrow> addr \<Rightarrow> (string list \<times> long_row list) option" where
  "read_long h a = (case objs h a of Some (Long ns rs) \<Rightarrow> Some (ns, rs) | _ \<Rightarrow> None)"

definition ok :: "error + 'a \<Rightarrow> 'a option" where
  "ok r = (case r of Inl e \<Rightarrow> None | Inr x \<Rightarrow> Some x)"

fun position :: "'a \<Rightarrow> 'a list \<Rightarrow> nat option" where
  "position x [] = None"
| "position x (y # ys) = (if x = y then Some 0 else map_option Suc (position x ys))"

definition label :: "nat \<Rightarrow> long_row \<Rightarrow> string" where
  "label p r = (if p = 0 then fst r else fst (snd r))"

definition cell :: "nat \<Rightarrow> long_row \<Rightarrow> float64" where
  "cell p r = snd (snd r) ! (p - 2)"

text \<open>
  The methods of pandas the callback uses. Each reads its receiver and returns a new
  object; the one \<open>tail\<close> returns is a view on its receiver, the others own their data.
  A method applied to an object of the wrong kind, or one that raises, yields \<open>None\<close>.
\<close>

definition tail_st :: "int \<Rightarrow> addr \<Rightarrow> store \<Rightarrow> (addr \<times> store) option" where
  "tail_st n a h = (case objs h a of Some (Frame df) \<Rightarrow> alloc (View a n) h | _ \<Rightarrow> None)"

definition reset_index_drop_st :: "addr \<Rightarrow> store \<Rightarrow> (addr \<times> store) option" where
  "reset_index_drop_st a h = do { df \<leftarrow> read_frame h a; alloc (Frame (reset_index_drop df)) h }"

definition describe_st :: "addr \<Rightarrow> store \<Rightarrow> (addr \<times> store) option" where
  "describe_st a h = do { df \<leftarrow> read_frame h a; t \<leftarrow> ok (describe df); alloc (Table t) h }"

definition loc_rows_st :: "string list \<Rightarrow> addr \<Rightarrow> store \<Rightarrow> (addr \<times> store) option" where
  "loc_rows_st labels a h = do { t \<leftarrow> read_table h a; s \<leftarrow> ok (loc_rows labels t); alloc (Table s) h }"

definition transpose_st :: "addr \<Rightarrow> store \<Rightarrow> (addr \<times> store) option" where
  "transpose_st a h = do { t \<leftarrow> read_table h a; alloc (Table (transpose_T t)) h }"

definition round_st :: "nat \<Rightarrow> addr \<Rightarrow> store \<Rightarrow> (addr \<times> store) option" where
  "round_st d a h = do { t \<leftarrow> read_table h a; alloc (Table (round_table d t)) h }"

definition corr_st :: "addr \<Rightarrow> store \<Rightarrow> (addr \<times> store) option" where
  "corr_st a h = do { df \<leftarrow> read_frame h a; alloc (Table (corr df)) h }"

definition loc2_st :: "addr \<Rightarrow> string \<Rightarrow> string \<Rightarrow> store \<Rightarrow> float64 option" where
  "loc2_st a row col h = do { t \<leftarrow> read_table h a; ok (loc2 t row col) }"

definition unstack_reset_index_st :: "addr \<Rightarrow> store \<Rightarrow> (addr \<times> store) option" where
  "unstack_reset_index_st a h =
     do { t \<leftarrow> read_table h a;
          alloc (Long [''level_0'', ''level_1'', ''0''] (map (\<lambda>(c, r, v). (c, r, [v])) (unstack t))) h }"

text \<open>\<open>frame[frame[c1] < frame[c2]]\<close> on two label columns.\<close>

definition filter_less_st :: "string \<Rightarrow> string \<Rightarrow> addr \<Rightarrow> store \<Rightarrow> (addr \<times> store) option" where
  "filter_less_st c1 c2 a h =
     do { (ns, rs) \<leftarrow> read_long h a;
          p1 \<leftarrow> position c1 ns;
          p2 \<leftarrow> position c2 ns;
          if p1 < 2 \<and> p2 < 2 then alloc (Long ns (filter (\<lambda>r. label p1 r < label p2 r) rs)) h
          else None }"

definition copy_st :: "addr \<Rightarrow> store \<Rightarrow> (addr \<times> store) option" where
  "copy_st a h = do { (ns, rs) \<leftarrow> read_long h a; alloc (Long ns rs) h }"

definition sort_values_st :: "string \<Rightarrow> addr \<Rightarrow> store \<Rightarrow> (addr \<times> store) option" where
  "sort_values_st by_col a h =
     do { (ns, rs) \<leftarrow> read_long h a;
          p \<leftarrow> position by_col ns;
          if 2 \<le> p then alloc (Long ns (sort_values_desc (cell p) rs)) h else None }"

definition head_st :: "nat \<Rightarrow> addr \<Rightarrow> store \<Rightarrow> (addr \<times> store) option" where
  "head_st n a h = do { (ns, rs) \<leftarrow> read_long h a; alloc (Long ns (head n rs)) h }"

text \<open>The two assignments of the callback that change an object in place.\<close>

definition set_columns :: "addr \<Rightarrow> string list \<Rightarrow> store \<Rightarrow> store option" where
  "set_columns a names h =
     do { (ns, rs) \<leftarrow> read_long h a;
          if length names = length ns then Some (h\<lparr>objs := (objs h)(a \<mapsto> Long names rs)\<rparr>)
          else None }"

text \<open>\<open>frame[new] = frame[src].abs()\<close> for a column name \<open>new\<close> the frame does not have yet.\<close>

definition setitem_abs :: "addr \<Rightarrow> string \<Rightarrow> string \<Rightarrow> store \<Rightarrow> store option" where
  "setitem_abs a new src h =
     do { (ns, rs) \<leftarrow> read_long h a;
          p \<leftarrow> position src ns;
          if 2 \<le> p \<and> new \<notin> set ns
          then Some (h\<lparr>objs := (objs h)(a \<mapsto>
                  Long (ns @ [new]) (map (\<lambda>(v1, v2, cells). (v1, v2, cells @ [fabs (cells ! (p - 2))])) rs))\<rparr>)
          else None }"

text \<open>One line of the narrative per row, the cells read by column name.\<close>

definition row_line :: "string list \<Rightarrow> long_row \<Rightarrow> frag list option" where
  "row_line ns r =
     do { p1 \<leftarrow> position ''var1'' ns;
          p2 \<leftarrow> position ''var2'' ns;
          p3 \<leftarrow> position ''corr'' ns;
          if p1 < 2 \<and> p2 < 2 \<and> 2 \<le> p3
          then Some [Str ''- **'', Str (label p1 r), Str ''** vs **'', Str (label p2 r),
                     Str ''**: correlation = **'', FloatF (cell p3 r), Str (''**  '' @ nl)]
          else None }"

fun mapO :: "('a \<Rightarrow> 'b option) \<Rightarrow> 'a list \<Rightarrow> 'b list option" where
  "mapO f [] = Some []"
| "mapO f (x # xs) = do { y \<leftarrow> f x; ys \<leftarrow> mapO f xs; Some (y # ys) }"

text \<open>\<open>get_recent_df\<close> and \<open>render_analysis\<close>, statement by statement, \<open>df_all\<close> being the
  object at \<open>df_all_ref\<close>.\<close>

definition get_recent_df_st :: "addr \<Rightarrow> int \<Rightarrow> store \<Rightarrow> (addr \<times> store) option" where
  "get_recent_df_st df_all_ref n_rows_to_use h =
     do { let n = (if n_rows_to_use < 2 then 2 else n_rows_to_use);
          (t, h) \<leftarrow> tail_st n df_all_ref h;
          reset_index_drop_st t h }"

definition render_analysis_st :: "addr \<Rightarrow> int \<Rightarrow> store \<Rightarrow> (display list \<times> store) option" where
  "render_analysis_st df_all_ref n_rows_selected h =
     do { (current_df, h) \<leftarrow> get_recent_df_st df_all_ref n_rows_selected h;
          (d, h) \<leftarrow> describe_st current_df h;
          (d, h) \<leftarrow> loc_rows_st [''mean'', ''std'', ''min'', ''50%'', ''max''] d h;
          (d, h) \<leftarrow> transpose_st d h;
          (summary, h) \<leftarrow> round_st 2 d h;
          (c, h) \<leftarrow> corr_st current_df h;
          (corr, h) \<leftarrow> round_st 3 c h;
          m1 \<leftarrow> loc2_st summary ''Supplier_Lead_Time'' ''mean'' h;
          m2 \<leftarrow> loc2_st summary ''Inventory_Levels'' ''mean'' h;
          m3 \<leftarrow> loc2_st summary ''Delivery_Performance'' ''mean'' h;
          let md = [Str (nl @ ''### Interactive analysis (using last **''),
                    IntF n_rows_selected,
                    Str (''** rows)'' @ nl @ nl @ ''**Observations (dynamically computed):**'' @ nl
                         @ ''- Mean Supplier Lead Time: **''),
                    FloatF m1,
                    Str (''** days  '' @ nl @ ''- Mean Inventory Level: **''),
                    FloatF m2,
                    Str (''** units  '' @ nl @ ''- Delivery Performance (mean): **''),
                    FloatF m3,
                    Str (''** %'' @ nl @ nl @ ''**Top correlations (absolute value):**'' @ nl)];
          (corr_unstack, h) \<leftarrow> unstack_reset_index_st corr h;
          h \<leftarrow> set_columns corr_unstack [''var1'', ''var2'', ''corr''] h;
          (f, h) \<leftarrow> filter_less_st ''var1'' ''var2'' corr_unstack h;
          (corr_pairs, h) \<leftarrow> copy_st f h;
          h \<leftarrow> setitem_abs corr_pairs ''abs_corr'' ''corr'' h;
          (s, h) \<leftarrow> sort_values_st ''abs_corr'' corr_pairs h;
          (top_pairs, h) \<leftarrow> head_st 3 s h;
          (ns, rows) \<leftarrow> read_long h top_pairs;
          lines \<leftarrow> mapO (row_line ns) rows;
          let md = md @ concat lines;
          corr_shown \<leftarrow> read_table h corr;
          summary_shown \<leftarrow> read_table h summary;
          Some ([Markdown md,
                 Markdown [Str ''**Correlation matrix:**''],
                 ShowTable corr_shown,
                 Heatmap [Str (''Correlation Heatmap '' @ emdash @ '' last ''),
                          IntF n_rows_selected, Str '' rows''] corr_shown,
                 Markdown [Str ''**Summary statistics (selected subset):**''],
                 ShowTable summary_shown],
                h) }"

text \<open>
  Writing one cell of a frame object, as \<open>frame.iloc[i, column] = v\<close> does: an owning
  frame changes itself, a view changes the frame it is a view on.
\<close>

definition set_cell :: "nat \<Rightarrow> string \<Rightarrow> real \<Rightarrow> dataframe \<Rightarrow> dataframe" where
  "set_cell i name v df =
     df\<lparr>columns := map (\<lambda>(c, xs). if c = name then (c, xs[i := v]) else (c, xs)) (columns df)\<rparr>"

definition iloc_set :: "addr \<Rightarrow> nat \<Rightarrow> string \<Rightarrow> real \<Rightarrow> store \<Rightarrow> store option" where
  "iloc_set a i name v h =
     (case objs h a of
        Some (Frame df) \<Rightarrow>
          if i < length (index df)
          then Some (h\<lparr>objs := (objs h)(a \<mapsto> Frame (set_cell i name v df))\<rparr>) else None
      | Some (View b n) \<Rightarrow>
          (case objs h b of
             Some (Frame df) \<Rightarrow>
               if i < length (index (tail n df))
               then Some (h\<lparr>objs := (objs h)(b \<mapsto>
                       Frame (set_cell (length (index df) - length (index (tail n df)) + i) name v df))\<rparr>)
               else None
           | _ \<Rightarrow> None)
      | _ \<Rightarrow> None)"

section \<open>The dataset and the subset selector\<close>

lemma index_df_all: "index (df_all g s0) = [0..<74]"
  by (simp add: df_all_def cell1_def np_random_normal_def np_random_seed_def DataFrame_def
      n_rows_def RND_def np_clip_def)

lemma columns_df_all:
  "columns (df_all g s0) =
     [(''Supplier_Lead_Time'', map (\<lambda>i. clip1 (Some 1) None (12 + 5 * g 42 i)) [0..<74]),
      (''Inventory_Levels'', map (\<lambda>i. clip1 (Some 0) None (300 + 90 * g 42 (74 + i))) [0..<74]),
      (''Order_Frequency'', map (\<lambda>i. clip1 (Some (1 / 2)) None (6 + 5 / 2 * g 42 (148 + i))) [0..<74]),
      (''Delivery_Performance'', map (\<lambda>i. clip1 (Some 40) (Some 100) (85 + 8 * g 42 (222 + i))) [0..<74]),
      (''Cost_Per_Unit'', map (\<lambda>i. clip1 (Some 1) None (28 + 7 * g 42 (296 + i))) [0..<74])]"
  by (simp add: df_all_def cell1_def np_random_normal_def np_random_seed_def DataFrame_def
      n_rows_def RND_def np_clip_def o_def)

lemma aligned_df_all: "aligned (df_all g s0)"
  by (simp add: aligned_def index_df_all columns_df_all)

lemma py_slice_last: "0 < n \<Longrightarrow> py_slice (Some (- n)) None xs = drop (length xs - nat n) xs"
proof -
  assume n: "0 < n"
  have "nat (max (int (length xs) + - n) 0) = length xs - nat n"
    using n by (simp add: max_def nat_diff_distrib')
  then show ?thesis using n by (simp add: py_slice_def py_bound_def)
qed

lemma tail_pos:
  assumes "0 < n"
  shows "tail n df = \<lparr>index = drop (length (index df) - nat n) (index df),
                       columns = map (\<lambda>(name, xs). (name, drop (length xs - nat n) xs)) (columns df)\<rparr>"
  using assms by (simp add: tail_def iloc_def py_slice_last)

lemma records_tail:
  assumes al: "aligned df" and n: "0 < n"
  shows "records (reset_index_drop (tail n df)) = drop (length (index df) - nat n) (records df)"
proof -
  define L where "L = length (index df)"
  define m where "m = L - nat n"
  have len: "\<And>c. c \<in> set (columns df) \<Longrightarrow> length (snd c) = L"
    using al by (simp add: aligned_def L_def)
  have cols: "columns (reset_index_drop (tail n df)) = map (\<lambda>(name, xs). (name, drop m xs)) (columns df)"
    using len by (auto simp: tail_pos[OF n] reset_index_drop_def m_def)
  have idx: "length (index (reset_index_drop (tail n df))) = L - m"
    by (simp add: tail_pos[OF n] reset_index_drop_def m_def L_def)
  have "records (reset_index_drop (tail n df))
        = map (\<lambda>i. map (\<lambda>c. snd c ! (m + i)) (columns df)) [0..<L - m]"
    unfolding records_def cols idx
    using len by (auto simp: m_def split: prod.splits)
  also have "\<dots> = map (\<lambda>i. map (\<lambda>c. snd c ! i) (columns df)) (map (\<lambda>i. i + m) [0..<L - m])"
    by (simp add: o_def add.commute)
  also have "map (\<lambda>i. i + m) [0..<L - m] = [m..<L]"
    by (simp add: map_add_upt m_def)
  also have "map (\<lambda>i. map (\<lambda>c. snd c ! i) (columns df)) [m..<L] = drop m (records df)"
    by (simp add: records_def drop_map L_def)
  finally show ?thesis by (simp add: m_def L_def)
qed

lemma get_recent_df_records:
  assumes "aligned df"
  shows "records (get_recent_df df N) = drop (length (index df) - nat (max 2 N)) (records df)"
proof (cases "N < 2")
  case True
  then show ?thesis using records_tail[OF assms, of 2] by (simp add: get_recent_df_def max_def)
next
  case False
  then show ?thesis using records_tail[OF assms, of N] by (simp add: get_recent_df_def max_def)
qed

lemma length_records: "length (records df) = length (index df)"
  by (simp add: records_def)

lemma get_recent_df_names:
  "map fst (columns (get_recent_df df N)) = map fst (columns df)"
  by (auto simp: get_recent_df_def tail_def iloc_def reset_index_drop_def split: prod.splits)

lemma get_recent_df_whole:
  assumes al: "aligned df" and idx: "index df = [0..<length (index df)]" and big: "int (length (index df)) \<le> N" "2 \<le> N"
  shows "get_recent_df df N = df"
proof -
  have "0 < N" using big by simp
  have z: "length (index df) - nat N = 0" using big by simp
  have c: "map (\<lambda>(name, xs). (name, drop (length xs - nat N) xs)) (columns df) = columns df"
    using al z by (intro map_idI) (auto simp: aligned_def)
  show ?thesis
    using idx big c by (simp add: get_recent_df_def tail_pos[OF \<open>0 < N\<close>] reset_index_drop_def z)
qed

text \<open>
  Claim C1. \<open>get_recent_df N\<close> returns the last \<open>clamp(N, 2, 74)\<close> records of the
  dataset in their original order, under the same field names: exactly the last \<open>N\<close>
  records for \<open>N\<close> in \<open>[5, 74]\<close>, the last two for \<open>N\<close> below 2, and the whole
  dataset, unchanged, for \<open>N\<close> at or above 74.
\<close>

theorem get_recent_df_last_records:
  "records (get_recent_df (df_all g s0) N)
     = drop (74 - nat (max 2 (min N 74))) (records (df_all g s0))
   \<and> length (records (get_recent_df (df_all g s0) N)) = nat (max 2 (min N 74))
   \<and> map fst (columns (get_recent_df (df_all g s0) N)) = map fst (columns (df_all g s0))
   \<and> (5 \<le> N \<and> N \<le> 74 \<longrightarrow>
        length (records (get_recent_df (df_all g s0) N)) = nat N
        \<and> records (get_recent_df (df_all g s0) N) = drop (74 - nat N) (records (df_all g s0)))
   \<and> (N < 2 \<longrightarrow> records (get_recent_df (df_all g s0) N) = drop 72 (records (df_all g s0)))
   \<and> (74 \<le> N \<longrightarrow> get_recent_df (df_all g s0) N = df_all g s0)"
proof -
  let ?D = "df_all g s0"
  have r: "records (get_recent_df ?D N) = drop (74 - nat (max 2 N)) (records ?D)"
    using get_recent_df_records[OF aligned_df_all, of g s0 N] by (simp add: index_df_all)
  have l: "length (records ?D) = 74" by (simp add: length_records index_df_all)
  have e: "74 - nat (max 2 N) = 74 - nat (max 2 (min N 74))" by (simp add: max_def min_def)
  have w: "74 \<le> N \<Longrightarrow> get_recent_df ?D N = ?D"
    by (rule get_recent_df_whole[OF aligned_df_all]) (simp_all add: index_df_all)
  show ?thesis
    using r l e w by (auto simp: get_recent_df_names max_def min_def)
qed

lemma get_recent_df_columns:
  assumes "aligned df"
  shows "columns (get_recent_df df N)
         = map (\<lambda>(name, xs). (name, drop (length (index df) - nat (max 2 N)) xs)) (columns df)"
proof -
  have "0 < max 2 N" by simp
  have "get_recent_df df N = reset_index_drop (tail (max 2 N) df)"
    by (simp add: get_recent_df_def max_def)
  then show ?thesis
    using assms by (auto simp: tail_pos[OF \<open>0 < max 2 N\<close>] reset_index_drop_def aligned_def)
qed

lemma get_recent_df_index:
  "index (get_recent_df df N) = [0..<min (length (index df)) (nat (max 2 N))]"
proof -
  have "0 < max 2 N" by simp
  have "get_recent_df df N = reset_index_drop (tail (max 2 N) df)"
    by (simp add: get_recent_df_def max_def)
  then show ?thesis
    by (simp add: tail_pos[OF \<open>0 < max 2 N\<close>] reset_index_drop_def min_def) 
qed

lemma dataframe_eqI: "index a = index b \<Longrightarrow> columns a = columns b \<Longrightarrow> (a::dataframe) = b"
  by simp

lemma columns_recent_df_all:
  "columns (get_recent_df (df_all g s0) N) =
     [(''Supplier_Lead_Time'',
       map (\<lambda>i. clip1 (Some 1) None (12 + 5 * g 42 i)) [74 - nat (max 2 N)..<74]),
      (''Inventory_Levels'',
       map (\<lambda>i. clip1 (Some 0) None (300 + 90 * g 42 (74 + i))) [74 - nat (max 2 N)..<74]),
      (''Order_Frequency'',
       map (\<lambda>i. clip1 (Some (1 / 2)) None (6 + 5 / 2 * g 42 (148 + i))) [74 - nat (max 2 N)..<74]),
      (''Delivery_Performance'',
       map (\<lambda>i. clip1 (Some 40) (Some 100) (85 + 8 * g 42 (222 + i))) [74 - nat (max 2 N)..<74]),
      (''Cost_Per_Unit'',
       map (\<lambda>i. clip1 (Some 1) None (28 + 7 * g 42 (296 + i))) [74 - nat (max 2 N)..<74])]"
  by (simp add: get_recent_df_columns[OF aligned_df_all] index_df_all columns_df_all drop_map)

lemma example_recent5:
  "get_recent_df (df_all example_gauss example_rng) 5 =
     \<lparr>index = [0..<5],
      columns =
        [(''Supplier_Lead_Time'', [17, 7, 12, 12, 12]),
         (''Inventory_Levels'', [389991 / 1000, 210009 / 1000, 3018 / 10, 2982 / 10, 300]),
         (''Order_Frequency'', [17 / 2, 17 / 2, 7 / 2, 7 / 2, 6]),
         (''Delivery_Performance'', [93, 93, 93, 93, 53]),
         (''Cost_Per_Unit'', [119 / 4, 119 / 4, 119 / 4, 119 / 4, 21])]\<rparr>"
  apply (rule dataframe_eqI)
   apply (simp add: get_recent_df_index index_df_all)
  apply (simp add: columns_recent_df_all example_gauss_def example_rows_def clip1_def)
  done

text \<open>
  Claim C5. Whatever deviates the generator hands out, the dataset has exactly 74 records
  under the five field names, and every record has five values within the clamping bounds:
  Supplier_Lead_Time at least 1, Inventory_Levels at least 0, Order_Frequency at least 0.5,
  Delivery_Performance between 40 and 100, Cost_Per_Unit at least 1.
\<close>

theorem df_all_shape_and_bounds:
  "length (records (df_all g s0)) = 74
   \<and> map fst (columns (df_all g s0)) =
       [''Supplier_Lead_Time'', ''Inventory_Levels'', ''Order_Frequency'',
        ''Delivery_Performance'', ''Cost_Per_Unit'']
   \<and> (\<forall>r \<in> set (records (df_all g s0)).
         length r = 5 \<and> 1 \<le> r ! 0 \<and> 0 \<le> r ! 1 \<and> 1 / 2 \<le> r ! 2
         \<and> 40 \<le> r ! 3 \<and> r ! 3 \<le> 100 \<and> 1 \<le> r ! 4)"
proof (intro conjI ballI)
  show "length (records (df_all g s0)) = 74"
    by (simp add: length_records index_df_all)
  show "map fst (columns (df_all g s0)) =
       [''Supplier_Lead_Time'', ''Inventory_Levels'', ''Order_Frequency'',
        ''Delivery_Performance'', ''Cost_Per_Unit'']"
    by (simp add: columns_df_all)
next
  fix r assume "r \<in> set (records (df_all g s0))"
  then obtain i where i: "i < 74" and r: "r = map (\<lambda>c. snd c ! i) (columns (df_all g s0))"
    by (auto simp: records_def index_df_all)
  have r': "r = [clip1 (Some 1) None (12 + 5 * g 42 i),
                 clip1 (Some 0) None (300 + 90 * g 42 (74 + i)),
                 clip1 (Some (1 / 2)) None (6 + 5 / 2 * g 42 (148 + i)),
                 clip1 (Some 40) (Some 100) (85 + 8 * g 42 (222 + i)),
                 clip1 (Some 1) None (28 + 7 * g 42 (296 + i))]"
    using i unfolding r columns_df_all by simp
  show "length r = 5" "1 \<le> r ! 0" "0 \<le> r ! 1" "1 / 2 \<le> r ! 2" "40 \<le> r ! 3" "r ! 3 \<le> 100" "1 \<le> r ! 4"
    unfolding r' by (simp_all add: clip1_def)
qed

text \<open>The last record of the example dataset is one such record.\<close>

theorem df_all_shape_and_bounds_witness:
  "[12, 300, 6, 53, 21] \<in> set (records (df_all example_gauss example_rng))
   \<and> (let r = [12, 300, 6, 53, 21 :: real]
      in length r = 5 \<and> 1 \<le> r ! 0 \<and> 0 \<le> r ! 1 \<and> 1 / 2 \<le> r ! 2
         \<and> 40 \<le> r ! 3 \<and> r ! 3 \<le> 100 \<and> 1 \<le> r ! 4)"
proof -
  have "records (get_recent_df (df_all example_gauss example_rng) 5) ! 4 = [12, 300, 6, 53, 21]"
    by (simp add: example_recent5 records_def)
  moreover have "4 < length (records (get_recent_df (df_all example_gauss example_rng) 5))"
    by (simp add: example_recent5 records_def)
  ultimately have a: "[12, 300, 6, 53, 21]
      \<in> set (records (get_recent_df (df_all example_gauss example_rng) 5))"
    using nth_mem by metis
  have b: "records (get_recent_df (df_all example_gauss example_rng) 5)
      = drop 69 (records (df_all example_gauss example_rng))"
    by (simp add: get_recent_df_records[OF aligned_df_all] index_df_all)
  have "[12, 300, 6, 53, 21] \<in> set (records (df_all example_gauss example_rng))"
    using a unfolding b by (rule in_set_dropD)
  then show ?thesis
    using df_all_shape_and_bounds[of example_gauss example_rng] by simp
qed

text \<open>
  Claim C8. Generation is deterministic in the seed: the first cell seeds the generator
  with 42 before it draws, so two runs started from any two generator states produce the
  same table (and leave the generator in the same state), and the analysis of that table
  is the same for every selected row count \<open>N\<close>.
\<close>

theorem generation_deterministic:
  "cell1 g s = cell1 g s'
   \<and> df_all g s = df_all g s'
   \<and> render_analysis (df_all g s) N = render_analysis (df_all g s') N"
proof -
  have "cell1 g s = cell1 g s'"
    by (simp add: cell1_def np_random_seed_def)
  then show ?thesis by (simp add: df_all_def)
qed

text \<open>The example dataset at \<open>N = 5\<close>, \<open>N = 1\<close> and \<open>N = 74\<close>.\<close>

theorem get_recent_df_last_records_witness:
  "(5::int) \<le> 5 \<and> (5::int) \<le> 74 \<and> (1::int) < 2 \<and> (74::int) \<le> 74
   \<and> records (get_recent_df (df_all example_gauss example_rng) 5)
       = drop 69 (records (df_all example_gauss example_rng))
   \<and> length (records (get_recent_df (df_all example_gauss example_rng) 5)) = 5
   \<and> records (get_recent_df (df_all example_gauss example_rng) 1)
       = drop 72 (records (df_all example_gauss example_rng))
   \<and> get_recent_df (df_all example_gauss example_rng) 74 = df_all example_gauss example_rng"
  using get_recent_df_last_records[of example_gauss example_rng 5]
    get_recent_df_last_records[of example_gauss example_rng 1]
    get_recent_df_last_records[of example_gauss example_rng 74]
  by (simp add: length_records index_df_all)

section \<open>Sorting a frame by a float key\<close>


lemma mset_sort_values_desc: "mset (sort_values_desc key rows) = mset rows"
  by (simp add: sort_values_desc_def Let_def)

lemma set_sort_values_desc: "set (sort_values_desc key rows) = set rows"
  using mset_sort_values_desc[of key rows] by (metis set_mset_mset)

lemma length_sort_values_desc: "length (sort_values_desc key rows) = length rows"
  using mset_sort_values_desc[of key rows] by (metis size_mset)


text \<open>In the sorted frame a numeric key is never preceded by NaN or by a smaller key.\<close>

lemma sort_values_desc_sorted:
  assumes "i < j" "j < length (sort_values_desc key rows)"
    and "\<not> isna (key (sort_values_desc key rows ! j))"
  shows "\<not> isna (key (sort_values_desc key rows ! i))
         \<and> the_num (key (sort_values_desc key rows ! j)) \<le> the_num (key (sort_values_desc key rows ! i))"
proof -
  let ?f = "\<lambda>r. the_num (key r)"
  let ?nn = "filter (\<lambda>r. \<not> isna (key r)) rows"
  let ?A = "rev (sort_key ?f (rev ?nn))"
  let ?B = "filter (\<lambda>r. isna (key r)) rows"
  have S: "sort_values_desc key rows = ?A @ ?B"
    by (simp add: sort_values_desc_def Let_def)
  have jA: "j < length ?A"
  proof (rule ccontr)
    assume n: "\<not> j < length ?A"
    then have "j - length ?A < length ?B"
      using assms(2) unfolding S by simp
    then have "?B ! (j - length ?A) \<in> set ?B" by (rule nth_mem)
    then have "isna (key (?B ! (j - length ?A)))" by simp
    then show False using assms(3) n unfolding S by (simp add: nth_append)
  qed
  then have iA: "i < length ?A" using assms(1) by simp
  have setA: "set ?A \<subseteq> {r. \<not> isna (key r)}" by auto
  have "?A ! i \<in> set ?A" using iA by (rule nth_mem)
  then have ni: "\<not> isna (key (?A ! i))" using setA by blast
  have "sorted (map ?f (sort_key ?f (rev ?nn)))" by (rule sorted_sort_key)
  then have "sorted (rev (map ?f ?A))" by (simp add: rev_map)
  then have "map ?f ?A ! j \<le> map ?f ?A ! i"
    using assms(1) jA iA by (metis length_map less_imp_le_nat nth_map sorted_rev_nth_mono)
  then have "?f (?A ! j) \<le> ?f (?A ! i)" using iA jA by simp
  then show ?thesis using ni iA jA unfolding S by (simp add: nth_append)
qed

section \<open>The Pearson coefficient\<close>

lemma sum_list_zip_commute:
  "(\<Sum>(x, y)\<leftarrow>zip xs ys. f x y) = (\<Sum>(y, x)\<leftarrow>zip ys xs. f x y)"
proof -
  have "zip xs ys = map (\<lambda>(y, x). (x, y)) (zip ys xs)" by (rule zip_commute)
  then have "map (\<lambda>(x, y). f x y) (zip xs ys) = map (\<lambda>(y, x). f x y) (zip ys xs)"
    by (simp add: o_def split_def)
  then show ?thesis by simp
qed

lemma pearson_sym:
  assumes "length xs = length ys"
  shows "pearson xs ys = pearson ys xs"
proof -
  have c: "(\<Sum>(x, y)\<leftarrow>zip xs ys. (x - a) * (y - b)) = (\<Sum>(y, x)\<leftarrow>zip ys xs. (y - b) * (x - a))" for a b :: real
    using sum_list_zip_commute[of "\<lambda>x y. (x - a) * (y - b)" xs ys] by (simp add: mult.commute)
  show ?thesis
    unfolding pearson_def Let_def assms c by (simp add: mult.commute)
qed

lemma ssq_nonneg: "0 \<le> (\<Sum>x\<leftarrow>xs. (x - m)\<^sup>2)" for m :: real
  by (induction xs) simp_all

lemma ssq_zero_iff: "(\<Sum>x\<leftarrow>xs. (x - m)\<^sup>2) = 0 \<longleftrightarrow> (\<forall>x \<in> set xs. x = m)" for m :: real
proof (induction xs)
  case Nil
  then show ?case by simp
next
  case (Cons a xs)
  have "(a - m)\<^sup>2 + (\<Sum>x\<leftarrow>xs. (x - m)\<^sup>2) = 0 \<longleftrightarrow> (a - m)\<^sup>2 = 0 \<and> (\<Sum>x\<leftarrow>xs. (x - m)\<^sup>2) = 0"
    using ssq_nonneg[of m xs] by (simp add: add_nonneg_eq_0_iff)
  then show ?case using Cons by auto
qed

lemma sum_list_constant: "\<forall>x \<in> set xs. x = c \<Longrightarrow> sum_list xs = real (length xs) * c"
  by (induction xs) (simp_all add: algebra_simps)

lemma constant_iff_mean:
  "const_col xs \<longleftrightarrow> (\<forall>x \<in> set xs. x = sum_list xs / real (length xs))"
proof (cases xs)
  case Nil
  then show ?thesis by (simp add: const_col_def)
next
  case (Cons a r)
  show ?thesis
  proof
    assume c: "const_col xs"
    then have "\<forall>x \<in> set xs. x = a" using Cons by (simp add: const_col_def)
    then have "sum_list xs = real (length xs) * a" by (rule sum_list_constant)
    then have "sum_list xs / real (length xs) = a" using Cons by simp
    then show "\<forall>x \<in> set xs. x = sum_list xs / real (length xs)"
      using \<open>\<forall>x \<in> set xs. x = a\<close> by simp
  next
    assume "\<forall>x \<in> set xs. x = sum_list xs / real (length xs)"
    then show "const_col xs" unfolding const_col_def by metis
  qed
qed

lemma ssqdm_zero_iff:
  "(\<Sum>x\<leftarrow>xs. (x - sum_list xs / real (length xs))\<^sup>2) = 0 \<longleftrightarrow> const_col xs"
  by (simp add: ssq_zero_iff constant_iff_mean)

lemma pearson_constant_left: "const_col xs \<Longrightarrow> pearson xs ys = NaN"
  using ssqdm_zero_iff[of xs] by (simp add: pearson_def Let_def)

lemma pearson_constant_right:
  assumes "const_col ys" "length xs = length ys"
  shows "pearson xs ys = NaN"
  using pearson_sym[OF assms(2)] pearson_constant_left[OF assms(1)] by simp


section \<open>The analysis of a subset of the dataset\<close>

lemma recent_frame5:
  "\<exists>x1 x2 x3 x4 x5.
     get_recent_df (df_all g s0) N = frame5 (nat (max 2 (min N 74))) x1 x2 x3 x4 x5
     \<and> length x1 = nat (max 2 (min N 74)) \<and> length x2 = nat (max 2 (min N 74))
     \<and> length x3 = nat (max 2 (min N 74)) \<and> length x4 = nat (max 2 (min N 74))
     \<and> length x5 = nat (max 2 (min N 74))"
proof -
  have k: "74 - (74 - nat (max 2 N)) = nat (max 2 (min N 74))"
    by (simp add: max_def min_def)
  have e: "min 74 (nat (max 2 N)) = nat (max 2 (min N 74))"
    by arith
  have i: "index (get_recent_df (df_all g s0) N) = [0..<nat (max 2 (min N 74))]"
    by (simp add: get_recent_df_index index_df_all e)
  let ?r = "[74 - nat (max 2 N)..<74]"
  let ?x1 = "map (\<lambda>i. clip1 (Some 1) None (12 + 5 * g 42 i)) ?r"
  let ?x2 = "map (\<lambda>i. clip1 (Some 0) None (300 + 90 * g 42 (74 + i))) ?r"
  let ?x3 = "map (\<lambda>i. clip1 (Some (1 / 2)) None (6 + 5 / 2 * g 42 (148 + i))) ?r"
  let ?x4 = "map (\<lambda>i. clip1 (Some 40) (Some 100) (85 + 8 * g 42 (222 + i))) ?r"
  let ?x5 = "map (\<lambda>i. clip1 (Some 1) None (28 + 7 * g 42 (296 + i))) ?r"
  have f: "get_recent_df (df_all g s0) N = frame5 (nat (max 2 (min N 74))) ?x1 ?x2 ?x3 ?x4 ?x5"
    by (rule dataframe_eqI) (simp_all add: i frame5_def columns_recent_df_all)
  have l: "length ?r = nat (max 2 (min N 74))"
    using k by simp
  show ?thesis
    using f l by (metis length_map)
qed

lemma corr_of_frame5:
  "corr_of (frame5 k x1 x2 x3 x4 x5) =
    [(''Supplier_Lead_Time'',
      [(''Supplier_Lead_Time'', round_dec 3 (pearson x1 x1)),
       (''Inventory_Levels'', round_dec 3 (pearson x1 x2)),
       (''Order_Frequency'', round_dec 3 (pearson x1 x3)),
       (''Delivery_Performance'', round_dec 3 (pearson x1 x4)),
       (''Cost_Per_Unit'', round_dec 3 (pearson x1 x5))]),
     (''Inventory_Levels'',
      [(''Supplier_Lead_Time'', round_dec 3 (pearson x2 x1)),
       (''Inventory_Levels'', round_dec 3 (pearson x2 x2)),
       (''Order_Frequency'', round_dec 3 (pearson x2 x3)),
       (''Delivery_Performance'', round_dec 3 (pearson x2 x4)),
       (''Cost_Per_Unit'', round_dec 3 (pearson x2 x5))]),
     (''Order_Frequency'',
      [(''Supplier_Lead_Time'', round_dec 3 (pearson x3 x1)),
       (''Inventory_Levels'', round_dec 3 (pearson x3 x2)),
       (''Order_Frequency'', round_dec 3 (pearson x3 x3)),
       (''Delivery_Performance'', round_dec 3 (pearson x3 x4)),
       (''Cost_Per_Unit'', round_dec 3 (pearson x3 x5))]),
     (''Delivery_Performance'',
      [(''Supplier_Lead_Time'', round_dec 3 (pearson x4 x1)),
       (''Inventory_Levels'', round_dec 3 (pearson x4 x2)),
       (''Order_Frequency'', round_dec 3 (pearson x4 x3)),
       (''Delivery_Performance'', round_dec 3 (pearson x4 x4)),
       (''Cost_Per_Unit'', round_dec 3 (pearson x4 x5))]),
     (''Cost_Per_Unit'',
      [(''Supplier_Lead_Time'', round_dec 3 (pearson x5 x1)),
       (''Inventory_Levels'', round_dec 3 (pearson x5 x2)),
       (''Order_Frequency'', round_dec 3 (pearson x5 x3)),
       (''Delivery_Performance'', round_dec 3 (pearson x5 x4)),
       (''Cost_Per_Unit'', round_dec 3 (pearson x5 x5))])]"
  by (simp add: corr_of_def corr_def frame5_def round_table_def)

lemma corr_pairs_frame5:
  "corr_pairs_of (corr_of (frame5 k x1 x2 x3 x4 x5)) =
    [(''Inventory_Levels'', ''Supplier_Lead_Time'',
      round_dec 3 (pearson x2 x1), fabs (round_dec 3 (pearson x2 x1))),
     (''Inventory_Levels'', ''Order_Frequency'',
      round_dec 3 (pearson x2 x3), fabs (round_dec 3 (pearson x2 x3))),
     (''Order_Frequency'', ''Supplier_Lead_Time'',
      round_dec 3 (pearson x3 x1), fabs (round_dec 3 (pearson x3 x1))),
     (''Delivery_Performance'', ''Supplier_Lead_Time'',
      round_dec 3 (pearson x4 x1), fabs (round_dec 3 (pearson x4 x1))),
     (''Delivery_Performance'', ''Inventory_Levels'',
      round_dec 3 (pearson x4 x2), fabs (round_dec 3 (pearson x4 x2))),
     (''Delivery_Performance'', ''Order_Frequency'',
      round_dec 3 (pearson x4 x3), fabs (round_dec 3 (pearson x4 x3))),
     (''Cost_Per_Unit'', ''Supplier_Lead_Time'',
      round_dec 3 (pearson x5 x1), fabs (round_dec 3 (pearson x5 x1))),
     (''Cost_Per_Unit'', ''Inventory_Levels'',
      round_dec 3 (pearson x5 x2), fabs (round_dec 3 (pearson x5 x2))),
     (''Cost_Per_Unit'', ''Order_Frequency'',
      round_dec 3 (pearson x5 x3), fabs (round_dec 3 (pearson x5 x3))),
     (''Cost_Per_Unit'', ''Delivery_Performance'',
      round_dec 3 (pearson x5 x4), fabs (round_dec 3 (pearson x5 x4)))]"
  by (simp add: corr_pairs_of_def corr_of_frame5 unstack_def)

lemma summary_of_frame5:
  "summary_of (frame5 k x1 x2 x3 x4 x5) =
   Inr [(''mean'',
          [(''Supplier_Lead_Time'', round_dec 2 (mean x1)),
           (''Inventory_Levels'', round_dec 2 (mean x2)),
           (''Order_Frequency'', round_dec 2 (mean x3)),
           (''Delivery_Performance'', round_dec 2 (mean x4)),
           (''Cost_Per_Unit'', round_dec 2 (mean x5))]),
         (''std'',
          [(''Supplier_Lead_Time'', round_dec 2 (std x1)),
           (''Inventory_Levels'', round_dec 2 (std x2)),
           (''Order_Frequency'', round_dec 2 (std x3)),
           (''Delivery_Performance'', round_dec 2 (std x4)),
           (''Cost_Per_Unit'', round_dec 2 (std x5))]),
         (''min'',
          [(''Supplier_Lead_Time'', round_dec 2 (fmin x1)),
           (''Inventory_Levels'', round_dec 2 (fmin x2)),
           (''Order_Frequency'', round_dec 2 (fmin x3)),
           (''Delivery_Performance'', round_dec 2 (fmin x4)),
           (''Cost_Per_Unit'', round_dec 2 (fmin x5))]),
         (''50%'',
          [(''Supplier_Lead_Time'', round_dec 2 (quantile (1 / 2) x1)),
           (''Inventory_Levels'', round_dec 2 (quantile (1 / 2) x2)),
           (''Order_Frequency'', round_dec 2 (quantile (1 / 2) x3)),
           (''Delivery_Performance'', round_dec 2 (quantile (1 / 2) x4)),
           (''Cost_Per_Unit'', round_dec 2 (quantile (1 / 2) x5))]),
         (''max'',
          [(''Supplier_Lead_Time'', round_dec 2 (fmax x1)),
           (''Inventory_Levels'', round_dec 2 (fmax x2)),
           (''Order_Frequency'', round_dec 2 (fmax x3)),
           (''Delivery_Performance'', round_dec 2 (fmax x4)),
           (''Cost_Per_Unit'', round_dec 2 (fmax x5))])]"
  by (simp add: summary_of_def describe_def frame5_def loc_rows_def transpose_T_def round_table_def)

lemma lookup_map:
  assumes "distinct (map fst kvs)" "(a, v) \<in> set kvs"
  shows "lookup a (map (\<lambda>(k, v). (k, f k v)) kvs) = Inr (f a v)"
  using assms
proof (induction kvs)
  case Nil
  then show ?case by simp
next
  case (Cons p kvs)
  obtain k w where p: "p = (k, w)" by (cases p)
  show ?case
  proof (cases "a = k")
    case True
    have "v = w"
    proof (rule ccontr)
      assume "v \<noteq> w"
      then have "(a, v) \<in> set kvs" using Cons.prems(2) p by simp
      then have "a \<in> fst ` set kvs" by force
      then show False using Cons.prems(1) p True by simp
    qed
    then show ?thesis using p True by simp
  next
    case False
    then show ?thesis using Cons p by simp
  qed
qed

lemma loc2_corr_of:
  assumes "distinct (map fst (columns df))"
    and "(a, xs) \<in> set (columns df)" and "(b, ys) \<in> set (columns df)"
  shows "loc2 (corr_of df) a b = Inr (round_dec 3 (pearson ys xs))"
proof -
  have c: "corr_of df
      = map (\<lambda>(n, zs). (n, map (\<lambda>(m, ws). (m, round_dec 3 (pearson zs ws))) (columns df))) (columns df)"
    by (simp add: corr_of_def corr_def round_table_def o_def split_def)
  have 1: "lookup b (corr_of df) = Inr (map (\<lambda>(m, ws). (m, round_dec 3 (pearson ys ws))) (columns df))"
    unfolding c by (rule lookup_map[OF assms(1) assms(3)])
  have 2: "lookup a (map (\<lambda>(m, ws). (m, round_dec 3 (pearson ys ws))) (columns df))
      = Inr (round_dec 3 (pearson ys xs))"
    by (rule lookup_map[OF assms(1) assms(2)])
  show ?thesis by (simp add: loc2_def 1 2)
qed

lemma recent_names: "map fst (columns (get_recent_df (df_all g s0) N)) = field_names"
  by (simp add: columns_recent_df_all field_names_def)

lemma distinct_field_names: "distinct field_names"
  by (simp add: field_names_def)

lemma recent_lengths:
  "(a, xs) \<in> set (columns (get_recent_df (df_all g s0) N)) \<Longrightarrow> length xs = nat (max 2 (min N 74))"
proof -
  have k: "74 - (74 - nat (max 2 N)) = nat (max 2 (min N 74))"
    by (simp add: max_def min_def)
  assume "(a, xs) \<in> set (columns (get_recent_df (df_all g s0) N))"
  then show ?thesis
    unfolding columns_recent_df_all using k by auto
qed


lemma recent_distinct: "distinct (map fst (columns (get_recent_df (df_all g s0) N)))"
  by (simp add: recent_names distinct_field_names)

lemma recent_column_exists:
  assumes "a \<in> set field_names"
  shows "\<exists>xs. (a, xs) \<in> set (columns (get_recent_df (df_all g s0) N))"
proof -
  have "a \<in> fst ` set (columns (get_recent_df (df_all g s0) N))"
    using assms recent_names[of g s0 N] by (metis list.set_map)
  then show ?thesis by force
qed

lemma corr_recent_sym:
  assumes "(a, xs) \<in> set (columns (get_recent_df (df_all g s0) N))"
    and "(b, ys) \<in> set (columns (get_recent_df (df_all g s0) N))"
  shows "loc2 (corr_of (get_recent_df (df_all g s0) N)) a b = Inr (round_dec 3 (pearson xs ys))
       \<and> loc2 (corr_of (get_recent_df (df_all g s0) N)) b a = Inr (round_dec 3 (pearson xs ys))"
proof -
  have "length xs = length ys"
    using recent_lengths[OF assms(1)] recent_lengths[OF assms(2)] by simp
  then have "pearson ys xs = pearson xs ys" by (simp add: pearson_sym)
  then show ?thesis
    using loc2_corr_of[OF recent_distinct assms(1) assms(2)]
      loc2_corr_of[OF recent_distinct assms(2) assms(1)] by simp
qed


lemma corr_recent_const:
  assumes "(a, xs) \<in> set (columns (get_recent_df (df_all g s0) N))"
    and "(b, ys) \<in> set (columns (get_recent_df (df_all g s0) N))"
    and "const_col xs"
  shows "loc2 (corr_of (get_recent_df (df_all g s0) N)) a b = Inr NaN
       \<and> loc2 (corr_of (get_recent_df (df_all g s0) N)) b a = Inr NaN"
  using corr_recent_sym[OF assms(1,2)] pearson_constant_left[OF assms(3)] by simp




section \<open>The ranking step\<close>

lemma corr_pairs_row:
  assumes "r \<in> set (corr_pairs_of (corr_of df))"
  shows "\<exists>xs ys. (fst r, xs) \<in> set (columns df) \<and> (fst (snd r), ys) \<in> set (columns df)
           \<and> fst r < fst (snd r)
           \<and> fst (snd (snd r)) = round_dec 3 (pearson xs ys)
           \<and> abs_corr r = fabs (round_dec 3 (pearson xs ys))"
  using assms
  by (auto simp: corr_pairs_of_def corr_of_def corr_def round_table_def unstack_def abs_corr_def
      split: prod.splits) blast

lemma top_pairs_subset: "set (top_pairs_of c) \<subseteq> set (corr_pairs_of c)"
  unfolding top_pairs_of_def head_def
  using set_take_subset[of 3 "sort_values_desc abs_corr (corr_pairs_of c)"]
  by (simp add: set_sort_values_desc)

lemma length_top_pairs: "length (top_pairs_of c) = min 3 (length (corr_pairs_of c))"
  by (simp add: top_pairs_of_def head_def length_sort_values_desc min.commute)

lemma top_pairs_all:
  assumes "length (corr_pairs_of c) \<le> 3"
  shows "mset (top_pairs_of c) = mset (corr_pairs_of c)"
  using assms by (simp add: top_pairs_of_def head_def length_sort_values_desc mset_sort_values_desc)

lemma top_pairs_nan_last:
  assumes "i < j" "j < length (top_pairs_of c)" "isna (abs_corr (top_pairs_of c ! i))"
  shows "isna (abs_corr (top_pairs_of c ! j))"
proof (rule ccontr)
  let ?S = "sort_values_desc abs_corr (corr_pairs_of c)"
  assume n: "\<not> isna (abs_corr (top_pairs_of c ! j))"
  have j: "j < 3" "j < length ?S" using assms(2) by (simp_all add: top_pairs_of_def head_def)
  have "\<not> isna (abs_corr (?S ! j))" using n j by (simp add: top_pairs_of_def head_def)
  then have "\<not> isna (abs_corr (?S ! i))"
    using sort_values_desc_sorted[OF assms(1) j(2)] by blast
  then show False using assms(1,3) j by (simp add: top_pairs_of_def head_def)
qed

lemma top_pairs_numbers_first:
  assumes r: "r \<in> set (corr_pairs_of c)" "\<not> isna (abs_corr r)"
    and q: "q \<in> set (top_pairs_of c)" "isna (abs_corr q)"
  shows "r \<in> set (top_pairs_of c)"
proof -
  let ?S = "sort_values_desc abs_corr (corr_pairs_of c)"
  obtain i where i: "i < length (top_pairs_of c)" "top_pairs_of c ! i = q"
    using q(1) by (auto simp: in_set_conv_nth)
  then have i3: "i < 3" "i < length ?S" "?S ! i = q"
    by (simp_all add: top_pairs_of_def head_def)
  have "r \<in> set ?S" using r(1) by (simp add: set_sort_values_desc)
  then obtain j where j: "j < length ?S" "?S ! j = r"
    by (auto simp: in_set_conv_nth)
  have "j < 3"
  proof (rule ccontr)
    assume "\<not> j < 3"
    then have "i < j" using i3(1) by simp
    then have "\<not> isna (abs_corr (?S ! i))"
      using sort_values_desc_sorted[OF _ j(1)] r(2) j(2) by blast
    then show False using q(2) i3(3) by simp
  qed
  then have "take 3 ?S ! j = r" "j < length (take 3 ?S)" using j by simp_all
  then show ?thesis unfolding top_pairs_of_def head_def by (metis nth_mem)
qed

lemma corr_pairs_const_nan:
  assumes d: "distinct (map fst (columns df))"
    and a: "(a, xs) \<in> set (columns df)" "const_col xs"
    and l: "\<forall>c \<in> set (columns df). length (snd c) = k"
    and r: "r \<in> set (corr_pairs_of (corr_of df))" "fst r = a \<or> fst (snd r) = a"
  shows "isna (abs_corr r)"
proof -
  obtain us vs where uv: "(fst r, us) \<in> set (columns df)" "(fst (snd r), vs) \<in> set (columns df)"
    "abs_corr r = fabs (round_dec 3 (pearson us vs))"
    using corr_pairs_row[OF r(1)] by blast
  have len: "length us = length vs"
    using l[rule_format, OF uv(1)] l[rule_format, OF uv(2)] by simp
  have u: "\<And>n ws zs. (n, ws) \<in> set (columns df) \<Longrightarrow> (n, zs) \<in> set (columns df) \<Longrightarrow> ws = zs"
    using d by (meson eq_key_imp_eq_value)
  from r(2) have "pearson us vs = NaN"
  proof
    assume "fst r = a"
    then have "us = xs" using u uv(1) a(1) by blast
    then show ?thesis using a(2) by (simp add: pearson_constant_left)
  next
    assume "fst (snd r) = a"
    then have "vs = xs" using u uv(2) a(1) by blast
    then show ?thesis using a(2) len by (simp add: pearson_constant_right)
  qed
  then show ?thesis by (simp add: uv(3))
qed

section \<open>The example run evaluated\<close>

lemma sqrt_square_eq: "0 \<le> y \<Longrightarrow> x = y * y \<Longrightarrow> sqrt x = y"
  by (simp add: real_sqrt_mult_self)

lemma example5_pearson_21:
  "pearson [389991 / 1000, 210009 / 1000, 3018 / 10, 2982 / 10, 300] [17, 7, 12, 12, 12]
     = Num (9999 / 10001)"
proof -
  have s: "sqrt (8101620081 / 10000) = 90009 / 100"
    by (rule sqrt_square_eq) simp_all
  show ?thesis
    by (simp add: pearson_def Let_def power2_eq_square s)
qed

lemma example5_pearson_54:
  "pearson [119 / 4, 119 / 4, 119 / 4, 119 / 4, 21] [93, 93, 93, 93, 53] = Num 1"
proof -
  have s: "sqrt 78400 = 280"
    by (rule sqrt_square_eq) simp_all
  show ?thesis
    by (simp add: pearson_def Let_def power2_eq_square s)
qed

lemma example5_pearson_zero:
  "pearson [389991 / 1000, 210009 / 1000, 3018 / 10, 2982 / 10, 300] [17 / 2, 17 / 2, 7 / 2, 7 / 2, 6] = Num 0"
  "pearson [17 / 2, 17 / 2, 7 / 2, 7 / 2, 6] [17, 7, 12, 12, 12] = Num 0"
  "pearson [93, 93, 93, 93, 53] [17, 7, 12, 12, 12] = Num 0"
  "pearson [93, 93, 93, 93, 53] [389991 / 1000, 210009 / 1000, 3018 / 10, 2982 / 10, 300] = Num 0"
  "pearson [93, 93, 93, 93, 53] [17 / 2, 17 / 2, 7 / 2, 7 / 2, 6] = Num 0"
  "pearson [119 / 4, 119 / 4, 119 / 4, 119 / 4, 21] [17, 7, 12, 12, 12] = Num 0"
  "pearson [119 / 4, 119 / 4, 119 / 4, 119 / 4, 21] [389991 / 1000, 210009 / 1000, 3018 / 10, 2982 / 10, 300] = Num 0"
  "pearson [119 / 4, 119 / 4, 119 / 4, 119 / 4, 21] [17 / 2, 17 / 2, 7 / 2, 7 / 2, 6] = Num 0"
  by (simp_all add: pearson_def Let_def power2_eq_square)

lemma round3_values:
  "round_dec 3 (Num (9999 / 10001)) = Num 1"
  "round_dec 3 (Num 1) = Num 1"
  "round_dec 3 (Num 0) = Num 0"
  "round_dec 3 (Num (- 1)) = Num (- 1)"
  by (simp_all add: rint_def Let_def)

lemma example2_recent2:
  "get_recent_df (df_all example_gauss2 example_rng) 2 =
     frame5 2 [12, 12] [300, 390] [6, 6] [100, 100] [28, 35]"
  apply (rule dataframe_eqI)
   apply (simp add: get_recent_df_index index_df_all frame5_def)
  apply (simp add: columns_recent_df_all example_gauss2_def clip1_def frame5_def)
  done

lemma example2_pearson:
  "pearson [28, 35] [300, 390] = Num 1"
proof -
  have s: "sqrt 99225 = 315"
    by (rule sqrt_square_eq) simp_all
  show ?thesis
    by (simp add: pearson_def Let_def power2_eq_square s)
qed

lemma example2_const:
  "const_col [12, 12]" "const_col [6, 6]" "const_col [100, 100]"
  by (simp_all add: const_col_def)

lemma example2_corr_pairs:
  "corr_pairs_of (corr_of (get_recent_df (df_all example_gauss2 example_rng) 2)) =
    [(''Inventory_Levels'', ''Supplier_Lead_Time'', NaN, NaN),
     (''Inventory_Levels'', ''Order_Frequency'', NaN, NaN),
     (''Order_Frequency'', ''Supplier_Lead_Time'', NaN, NaN),
     (''Delivery_Performance'', ''Supplier_Lead_Time'', NaN, NaN),
     (''Delivery_Performance'', ''Inventory_Levels'', NaN, NaN),
     (''Delivery_Performance'', ''Order_Frequency'', NaN, NaN),
     (''Cost_Per_Unit'', ''Supplier_Lead_Time'', NaN, NaN),
     (''Cost_Per_Unit'', ''Inventory_Levels'', Num 1, Num 1),
     (''Cost_Per_Unit'', ''Order_Frequency'', NaN, NaN),
     (''Cost_Per_Unit'', ''Delivery_Performance'', NaN, NaN)]"
  by (simp add: example2_recent2 corr_pairs_frame5 example2_pearson example2_const
      pearson_constant_left pearson_constant_right rint_def)

lemma example2_top_pairs:
  "top_pairs_of (corr_of (get_recent_df (df_all example_gauss2 example_rng) 2)) =
    [(''Cost_Per_Unit'', ''Inventory_Levels'', Num 1, Num 1),
     (''Inventory_Levels'', ''Supplier_Lead_Time'', NaN, NaN),
     (''Inventory_Levels'', ''Order_Frequency'', NaN, NaN)]"
  by (simp add: top_pairs_of_def example2_corr_pairs sort_values_desc_def head_def abs_corr_def)


section \<open>Degenerate subsets\<close>

lemma std_zero_iff:
  assumes "2 \<le> length xs"
  shows "std xs = Num 0 \<longleftrightarrow> const_col xs"
proof -
  have "real (length xs - 1) \<noteq> 0" using assms by simp
  then have "(\<Sum>x\<leftarrow>xs. (x - sum_list xs / real (length xs))\<^sup>2) / real (length xs - 1) = 0
      \<longleftrightarrow> const_col xs"
    using ssqdm_zero_iff[of xs] by simp
  then show ?thesis using assms by (simp add: std_def Let_def)
qed

text \<open>
  Claim C4. In every subset the selector returns, a field of zero variance (its sample
  standard deviation is 0, that is, it is constant over the subset) has the NaN marker in
  every cell of its row and of its column of the correlation matrix, an \<open>Inr\<close> result
  and not an error, and every pair with that field has a NaN absolute correlation. In
  the ranked pairs no NaN precedes a number, and a NaN pair is among them only when every
  pair with a number is.
\<close>

theorem zero_variance_nan_sorted_last:
  "(\<forall>(a, xs) \<in> set (columns (get_recent_df (df_all g s0) N)).
      std xs = Num 0 \<longrightarrow>
        (\<forall>b \<in> set field_names.
           loc2 (corr_of (get_recent_df (df_all g s0) N)) a b = Inr NaN
           \<and> loc2 (corr_of (get_recent_df (df_all g s0) N)) b a = Inr NaN)
        \<and> (\<forall>r \<in> set (corr_pairs_of (corr_of (get_recent_df (df_all g s0) N))).
              fst r = a \<or> fst (snd r) = a \<longrightarrow> isna (abs_corr r)))
   \<and> (\<forall>i j. i < j \<and> j < length (top_pairs_of (corr_of (get_recent_df (df_all g s0) N)))
          \<and> isna (abs_corr (top_pairs_of (corr_of (get_recent_df (df_all g s0) N)) ! i))
        \<longrightarrow> isna (abs_corr (top_pairs_of (corr_of (get_recent_df (df_all g s0) N)) ! j)))
   \<and> (\<forall>r \<in> set (corr_pairs_of (corr_of (get_recent_df (df_all g s0) N))).
       \<forall>q \<in> set (top_pairs_of (corr_of (get_recent_df (df_all g s0) N))).
         isna (abs_corr q) \<and> \<not> isna (abs_corr r)
         \<longrightarrow> r \<in> set (top_pairs_of (corr_of (get_recent_df (df_all g s0) N))))"
proof -
  let ?sub = "get_recent_df (df_all g s0) N"
  have len: "\<forall>c \<in> set (columns ?sub). length (snd c) = nat (max 2 (min N 74))"
    using recent_lengths by force
  have a: "(\<forall>b \<in> set field_names. loc2 (corr_of ?sub) a b = Inr NaN \<and> loc2 (corr_of ?sub) b a = Inr NaN)
        \<and> (\<forall>r \<in> set (corr_pairs_of (corr_of ?sub)). fst r = a \<or> fst (snd r) = a \<longrightarrow> isna (abs_corr r))"
    if m: "(a, xs) \<in> set (columns ?sub)" and z: "std xs = Num 0" for a xs
  proof -
    have "2 \<le> length xs" using recent_lengths[OF m] by simp
    then have c: "const_col xs" using z by (simp add: std_zero_iff)
    have 1: "loc2 (corr_of ?sub) a b = Inr NaN \<and> loc2 (corr_of ?sub) b a = Inr NaN"
      if bf: "b \<in> set field_names" for b
    proof -
      obtain ys where "(b, ys) \<in> set (columns ?sub)"
        using recent_column_exists[OF bf] by blast
      then show ?thesis using corr_recent_const[OF m _ c] by blast
    qed
    have 2: "isna (abs_corr r)"
      if "r \<in> set (corr_pairs_of (corr_of ?sub))" "fst r = a \<or> fst (snd r) = a" for r
      using corr_pairs_const_nan[OF recent_distinct m c len that] .
    show ?thesis using 1 2 by blast
  qed
  have b: "isna (abs_corr (top_pairs_of (corr_of ?sub) ! j))"
    if "i < j \<and> j < length (top_pairs_of (corr_of ?sub))
        \<and> isna (abs_corr (top_pairs_of (corr_of ?sub) ! i))" for i j
    using that top_pairs_nan_last by blast
  have c: "r \<in> set (top_pairs_of (corr_of ?sub))"
    if "r \<in> set (corr_pairs_of (corr_of ?sub))" "q \<in> set (top_pairs_of (corr_of ?sub))"
      "isna (abs_corr q) \<and> \<not> isna (abs_corr r)" for r q
    using that top_pairs_numbers_first by blast
  show ?thesis
    using a b c by (intro conjI ballI allI impI; (cases rule: prod.exhaust)?) auto
qed

text \<open>
  The second example at \<open>N = 2\<close>: Supplier_Lead_Time is constant, one pair has a number
  and ranks first, two NaN pairs follow.
\<close>

theorem zero_variance_nan_sorted_last_witness:
  "(''Supplier_Lead_Time'', [12, 12])
      \<in> set (columns (get_recent_df (df_all example_gauss2 example_rng) 2))
   \<and> std [12, 12] = Num 0
   \<and> ''Inventory_Levels'' \<in> set field_names
   \<and> loc2 (corr_of (get_recent_df (df_all example_gauss2 example_rng) 2))
        ''Supplier_Lead_Time'' ''Inventory_Levels'' = Inr NaN
   \<and> loc2 (corr_of (get_recent_df (df_all example_gauss2 example_rng) 2))
        ''Inventory_Levels'' ''Supplier_Lead_Time'' = Inr NaN
   \<and> top_pairs_of (corr_of (get_recent_df (df_all example_gauss2 example_rng) 2)) =
        [(''Cost_Per_Unit'', ''Inventory_Levels'', Num 1, Num 1),
         (''Inventory_Levels'', ''Supplier_Lead_Time'', NaN, NaN),
         (''Inventory_Levels'', ''Order_Frequency'', NaN, NaN)]
   \<and> isna (abs_corr (''Inventory_Levels'', ''Supplier_Lead_Time'', NaN, NaN))
   \<and> \<not> isna (abs_corr (''Cost_Per_Unit'', ''Inventory_Levels'', Num 1, Num 1))"
proof -
  note t = zero_variance_nan_sorted_last[of example_gauss2 example_rng 2]
  have m: "(''Supplier_Lead_Time'', [12, 12])
      \<in> set (columns (get_recent_df (df_all example_gauss2 example_rng) 2))"
    by (simp add: example2_recent2 frame5_def)
  have z: "std [12, 12] = Num 0" by (simp add: std_def)
  have n: "''Inventory_Levels'' \<in> set field_names" by (simp add: field_names_def)
  have "loc2 (corr_of (get_recent_df (df_all example_gauss2 example_rng) 2))
        ''Supplier_Lead_Time'' ''Inventory_Levels'' = Inr NaN
   \<and> loc2 (corr_of (get_recent_df (df_all example_gauss2 example_rng) 2))
        ''Inventory_Levels'' ''Supplier_Lead_Time'' = Inr NaN"
    using t m z n by fastforce
  then show ?thesis
    using m z n by (simp add: example2_top_pairs abs_corr_def)
qed

section \<open>The shape of the ranked pairs\<close>

lemma example_recent5_frame:
  "get_recent_df (df_all example_gauss example_rng) 5 =
     frame5 5 [17, 7, 12, 12, 12]
       [389991 / 1000, 210009 / 1000, 3018 / 10, 2982 / 10, 300]
       [17 / 2, 17 / 2, 7 / 2, 7 / 2, 6]
       [93, 93, 93, 93, 53]
       [119 / 4, 119 / 4, 119 / 4, 119 / 4, 21]"
  by (simp add: example_recent5 frame5_def)

lemma example5_corr_pairs:
  "corr_pairs_of (corr_of (get_recent_df (df_all example_gauss example_rng) 5)) =
    [(''Inventory_Levels'', ''Supplier_Lead_Time'', Num 1, Num 1),
     (''Inventory_Levels'', ''Order_Frequency'', Num 0, Num 0),
     (''Order_Frequency'', ''Supplier_Lead_Time'', Num 0, Num 0),
     (''Delivery_Performance'', ''Supplier_Lead_Time'', Num 0, Num 0),
     (''Delivery_Performance'', ''Inventory_Levels'', Num 0, Num 0),
     (''Delivery_Performance'', ''Order_Frequency'', Num 0, Num 0),
     (''Cost_Per_Unit'', ''Supplier_Lead_Time'', Num 0, Num 0),
     (''Cost_Per_Unit'', ''Inventory_Levels'', Num 0, Num 0),
     (''Cost_Per_Unit'', ''Order_Frequency'', Num 0, Num 0),
     (''Cost_Per_Unit'', ''Delivery_Performance'', Num 1, Num 1)]"
  unfolding example_recent5_frame corr_pairs_frame5 example5_pearson_21 example5_pearson_54
    example5_pearson_zero round3_values
  by simp

lemma example5_top_pairs:
  "top_pairs_of (corr_of (get_recent_df (df_all example_gauss example_rng) 5)) =
    [(''Inventory_Levels'', ''Supplier_Lead_Time'', Num 1, Num 1),
     (''Cost_Per_Unit'', ''Delivery_Performance'', Num 1, Num 1),
     (''Inventory_Levels'', ''Order_Frequency'', Num 0, Num 0)]"
  by (simp add: top_pairs_of_def example5_corr_pairs sort_values_desc_def head_def abs_corr_def)

lemma recent_corr_pairs_names:
  "map pair_names (corr_pairs_of (corr_of (get_recent_df (df_all g s0) N))) =
    [(''Inventory_Levels'', ''Supplier_Lead_Time''),
     (''Inventory_Levels'', ''Order_Frequency''),
     (''Order_Frequency'', ''Supplier_Lead_Time''),
     (''Delivery_Performance'', ''Supplier_Lead_Time''),
     (''Delivery_Performance'', ''Inventory_Levels''),
     (''Delivery_Performance'', ''Order_Frequency''),
     (''Cost_Per_Unit'', ''Supplier_Lead_Time''),
     (''Cost_Per_Unit'', ''Inventory_Levels''),
     (''Cost_Per_Unit'', ''Order_Frequency''),
     (''Cost_Per_Unit'', ''Delivery_Performance'')]"
proof -
  obtain x1 x2 x3 x4 x5 where
    "get_recent_df (df_all g s0) N = frame5 (nat (max 2 (min N 74))) x1 x2 x3 x4 x5"
    using recent_frame5 by blast
  then show ?thesis
    by (simp add: corr_pairs_frame5 pair_names_def)
qed

lemma recent_corr_pairs_distinct:
  "distinct (map pair_names (corr_pairs_of (corr_of (get_recent_df (df_all g s0) N))))"
  unfolding recent_corr_pairs_names by simp

lemma distinct_map_mset:
  assumes "distinct (map f xs)" "mset ys = mset xs"
  shows "distinct (map f ys)"
proof -
  have "mset (map f ys) = mset (map f xs)" using assms(2) by simp
  then show ?thesis using assms(1) by (metis mset_eq_imp_distinct_iff)
qed

lemma top_pairs_distinct:
  assumes "distinct (map pair_names (corr_pairs_of c))"
  shows "distinct (map pair_names (top_pairs_of c))"
proof -
  have "distinct (map pair_names (sort_values_desc abs_corr (corr_pairs_of c)))"
    using distinct_map_mset[OF assms mset_sort_values_desc] .
  then show ?thesis
    by (simp add: top_pairs_of_def head_def take_map[symmetric] distinct_take)
qed

lemma corr_pairs_less: "r \<in> set (corr_pairs_of t) \<Longrightarrow> fst r < fst (snd r)"
  by (auto simp: corr_pairs_of_def)

text \<open>
  Claim C7. For every subset the ranked pairs are exactly three of the ten field pairs:
  each names two of the five fields with the first lexicographically below the second
  (so no pair of a field with itself), no pair of names occurs twice and none occurs
  mirrored. For any correlation table \<open>t\<close> the ranking returns at most three rows, each
  with its first name below its second, and when the table has three pairs or fewer it
  returns all of them.
\<close>

theorem ranked_pairs_shape:
  "length (top_pairs_of (corr_of (get_recent_df (df_all g s0) N))) = 3
   \<and> length (corr_pairs_of (corr_of (get_recent_df (df_all g s0) N))) = 10
   \<and> (\<forall>r \<in> set (top_pairs_of (corr_of (get_recent_df (df_all g s0) N))).
         fst r < fst (snd r) \<and> fst r \<noteq> fst (snd r)
         \<and> fst r \<in> set field_names \<and> fst (snd r) \<in> set field_names)
   \<and> distinct (map pair_names (top_pairs_of (corr_of (get_recent_df (df_all g s0) N))))
   \<and> (\<forall>r \<in> set (top_pairs_of (corr_of (get_recent_df (df_all g s0) N))).
       \<forall>q \<in> set (top_pairs_of (corr_of (get_recent_df (df_all g s0) N))).
         pair_names q \<noteq> (fst (snd r), fst r))
   \<and> length (top_pairs_of t) \<le> 3
   \<and> (\<forall>r \<in> set (top_pairs_of t). fst r < fst (snd r))
   \<and> (length (corr_pairs_of t) \<le> 3 \<longrightarrow> mset (top_pairs_of t) = mset (corr_pairs_of t))"
proof -
  let ?c = "corr_of (get_recent_df (df_all g s0) N)"
  have ten: "length (corr_pairs_of ?c) = 10"
    using arg_cong[OF recent_corr_pairs_names[of g s0 N], of length] by simp
  have three: "length (top_pairs_of ?c) = 3"
    by (simp add: length_top_pairs ten)
  have less: "fst r < fst (snd r)" if "r \<in> set (top_pairs_of u)" for r u
    using that top_pairs_subset corr_pairs_less by blast
  have neq: "fst r \<noteq> fst (snd r)" if "r \<in> set (top_pairs_of u)" for r u
    using less[OF that] by simp
  have names: "fst r \<in> set field_names \<and> fst (snd r) \<in> set field_names"
    if "r \<in> set (top_pairs_of ?c)" for r
  proof -
    have "r \<in> set (corr_pairs_of ?c)" using that top_pairs_subset by blast
    then obtain xs ys where "(fst r, xs) \<in> set (columns (get_recent_df (df_all g s0) N))"
      "(fst (snd r), ys) \<in> set (columns (get_recent_df (df_all g s0) N))"
      using corr_pairs_row by blast
    then have "fst r \<in> set (map fst (columns (get_recent_df (df_all g s0) N)))"
      "fst (snd r) \<in> set (map fst (columns (get_recent_df (df_all g s0) N)))"
      by force+
    then show ?thesis by (simp add: recent_names)
  qed
  have mirror: "pair_names q \<noteq> (fst (snd r), fst r)"
    if "r \<in> set (top_pairs_of ?c)" "q \<in> set (top_pairs_of ?c)" for r q
  proof
    assume "pair_names q = (fst (snd r), fst r)"
    then have "fst q = fst (snd r)" "fst (snd q) = fst r" by (simp_all add: pair_names_def)
    then show False using less[OF that(1)] less[OF that(2)] by simp
  qed
  have dist: "distinct (map pair_names (top_pairs_of ?c))"
    using top_pairs_distinct[OF recent_corr_pairs_distinct] .
  have le3: "length (top_pairs_of t) \<le> 3" by (simp add: length_top_pairs)
  show ?thesis
    using three ten less neq names mirror dist le3 top_pairs_all[of t]
    by (intro conjI ballI impI) blast+
qed

text \<open>
  The example dataset at \<open>N = 5\<close>, and as \<open>t\<close> the correlation table of a frame of two
  fields, which has a single pair.
\<close>

theorem ranked_pairs_shape_witness:
  "(''Inventory_Levels'', ''Supplier_Lead_Time'', Num 1, Num 1)
      \<in> set (top_pairs_of (corr_of (get_recent_df (df_all example_gauss example_rng) 5)))
   \<and> ''Inventory_Levels'' < ''Supplier_Lead_Time''
   \<and> ''Inventory_Levels'' \<in> set field_names \<and> ''Supplier_Lead_Time'' \<in> set field_names
   \<and> length (top_pairs_of (corr_of (get_recent_df (df_all example_gauss example_rng) 5))) = 3
   \<and> length (corr_pairs_of (corr_of \<lparr>index = [0, 1], columns = [(''a'', [1, 2]), (''b'', [2, 5])]\<rparr>)) \<le> 3
   \<and> mset (top_pairs_of (corr_of \<lparr>index = [0, 1], columns = [(''a'', [1, 2]), (''b'', [2, 5])]\<rparr>))
       = mset (corr_pairs_of (corr_of \<lparr>index = [0, 1], columns = [(''a'', [1, 2]), (''b'', [2, 5])]\<rparr>))"
proof -
  note t = ranked_pairs_shape[of example_gauss example_rng 5
      "corr_of \<lparr>index = [0, 1], columns = [(''a'', [1, 2]), (''b'', [2, 5])]\<rparr>"]
  have m: "(''Inventory_Levels'', ''Supplier_Lead_Time'', Num 1, Num 1)
      \<in> set (top_pairs_of (corr_of (get_recent_df (df_all example_gauss example_rng) 5)))"
    by (simp add: example5_top_pairs)
  have l: "length (corr_pairs_of (corr_of \<lparr>index = [0, 1], columns = [(''a'', [1, 2]), (''b'', [2, 5])]\<rparr>)) \<le> 3"
    by (simp add: corr_pairs_of_def corr_of_def corr_def round_table_def unstack_def)
  have "fst (''Inventory_Levels'', ''Supplier_Lead_Time'', Num 1, Num 1)
        < fst (snd (''Inventory_Levels'', ''Supplier_Lead_Time'', Num 1, Num 1))
      \<and> fst (''Inventory_Levels'', ''Supplier_Lead_Time'', Num 1, Num 1) \<in> set field_names
      \<and> fst (snd (''Inventory_Levels'', ''Supplier_Lead_Time'', Num 1, Num 1)) \<in> set field_names"
    using t m by blast
  then show ?thesis
    using t m l by simp
qed




section \<open>What the callback shows\<close>

lemma render_analysis_frame5:
  assumes "get_recent_df df n = frame5 k x1 x2 x3 x4 x5"
  shows "render_analysis df n =
     Inr [Markdown
            ([Str (nl @ ''### Interactive analysis (using last **''),
              IntF n,
              Str (''** rows)'' @ nl @ nl @ ''**Observations (dynamically computed):**'' @ nl
                   @ ''- Mean Supplier Lead Time: **''),
              FloatF (round_dec 2 (mean x1)),
              Str (''** days  '' @ nl @ ''- Mean Inventory Level: **''),
              FloatF (round_dec 2 (mean x2)),
              Str (''** units  '' @ nl @ ''- Delivery Performance (mean): **''),
              FloatF (round_dec 2 (mean x4)),
              Str (''** %'' @ nl @ nl @ ''**Top correlations (absolute value):**'' @ nl)]
             @ concat (map pair_line (top_pairs_of (corr_of (get_recent_df df n))))),
          Markdown [Str ''**Correlation matrix:**''],
          ShowTable (corr_of (get_recent_df df n)),
          Heatmap [Str (''Correlation Heatmap '' @ emdash @ '' last ''), IntF n, Str '' rows'']
            (corr_of (get_recent_df df n)),
          Markdown [Str ''**Summary statistics (selected subset):**''],
          ShowTable (projr (summary_of (get_recent_df df n)))]"
  unfolding render_analysis_def Let_def assms summary_of_frame5
  by (simp add: loc2_def)

text \<open>
  Claim C10. The narrative and the heat map's title report the requested row count
  \<open>n\<close> as it was passed in, while the three means shown and both tables are computed
  from the subset \<open>get_recent_df n\<close>. For every \<open>n\<close> below 2 that subset has two rows,
  so the count displayed differs from the count analysed.
\<close>

theorem narrative_reports_requested_count:
  "(\<exists>x1 x2 x4 summary.
      render_analysis (df_all g s0) n =
        Inr [Markdown
               ([Str (nl @ ''### Interactive analysis (using last **''),
                 IntF n,
                 Str (''** rows)'' @ nl @ nl @ ''**Observations (dynamically computed):**'' @ nl
                      @ ''- Mean Supplier Lead Time: **''),
                 FloatF (round_dec 2 (mean x1)),
                 Str (''** days  '' @ nl @ ''- Mean Inventory Level: **''),
                 FloatF (round_dec 2 (mean x2)),
                 Str (''** units  '' @ nl @ ''- Delivery Performance (mean): **''),
                 FloatF (round_dec 2 (mean x4)),
                 Str (''** %'' @ nl @ nl @ ''**Top correlations (absolute value):**'' @ nl)]
                @ concat (map pair_line
                            (top_pairs_of (corr_of (get_recent_df (df_all g s0) n))))),
             Markdown [Str ''**Correlation matrix:**''],
             ShowTable (corr_of (get_recent_df (df_all g s0) n)),
             Heatmap [Str (''Correlation Heatmap '' @ emdash @ '' last ''), IntF n, Str '' rows'']
               (corr_of (get_recent_df (df_all g s0) n)),
             Markdown [Str ''**Summary statistics (selected subset):**''],
             ShowTable summary]
      \<and> summary_of (get_recent_df (df_all g s0) n) = Inr summary
      \<and> (''Supplier_Lead_Time'', x1) \<in> set (columns (get_recent_df (df_all g s0) n))
      \<and> (''Inventory_Levels'', x2) \<in> set (columns (get_recent_df (df_all g s0) n))
      \<and> (''Delivery_Performance'', x4) \<in> set (columns (get_recent_df (df_all g s0) n)))
   \<and> (n < 2 \<longrightarrow>
        length (records (get_recent_df (df_all g s0) n)) = 2
        \<and> records (get_recent_df (df_all g s0) n) = drop 72 (records (df_all g s0))
        \<and> int (length (records (get_recent_df (df_all g s0) n))) \<noteq> n)"
proof -
  obtain x1 x2 x3 x4 x5 where
    f: "get_recent_df (df_all g s0) n = frame5 (nat (max 2 (min n 74))) x1 x2 x3 x4 x5"
    using recent_frame5 by blast
  have s: "\<exists>summary. summary_of (get_recent_df (df_all g s0) n) = Inr summary"
    unfolding f summary_of_frame5 by blast
  then have p: "summary_of (get_recent_df (df_all g s0) n)
      = Inr (projr (summary_of (get_recent_df (df_all g s0) n)))"
    by auto
  have c: "(''Supplier_Lead_Time'', x1) \<in> set (columns (get_recent_df (df_all g s0) n))"
    "(''Inventory_Levels'', x2) \<in> set (columns (get_recent_df (df_all g s0) n))"
    "(''Delivery_Performance'', x4) \<in> set (columns (get_recent_df (df_all g s0) n))"
    unfolding f by (simp_all add: frame5_def)
  have r: "records (get_recent_df (df_all g s0) n) = drop (74 - nat (max 2 n)) (records (df_all g s0))"
    using get_recent_df_records[OF aligned_df_all, of g s0 n] by (simp add: index_df_all)
  have l: "length (records (df_all g s0)) = 74" by (simp add: length_records index_df_all)
  have small: "length (records (get_recent_df (df_all g s0) n)) = 2
        \<and> records (get_recent_df (df_all g s0) n) = drop 72 (records (df_all g s0))
        \<and> int (length (records (get_recent_df (df_all g s0) n))) \<noteq> n" if "n < 2"
    using that r l by (simp add: max_def)
  show ?thesis
    using render_analysis_frame5[OF f] p c small by blast
qed

text \<open>The example dataset at \<open>n = 1\<close>: two rows analysed, one reported.\<close>

theorem narrative_reports_requested_count_witness:
  "(1::int) < 2
   \<and> length (records (get_recent_df (df_all example_gauss example_rng) 1)) = 2
   \<and> int (length (records (get_recent_df (df_all example_gauss example_rng) 1))) \<noteq> 1"
  using narrative_reports_requested_count[of example_gauss example_rng 1, THEN conjunct2]
  by (simp add: length_records index_df_all)

section \<open>The order of the ranked pairs\<close>




section \<open>Rounding\<close>

lemma corr_pairs_unrounded_frame5:
  "corr_pairs_of (corr (frame5 k x1 x2 x3 x4 x5)) =
    [(''Inventory_Levels'', ''Supplier_Lead_Time'', pearson x2 x1, fabs (pearson x2 x1)),
     (''Inventory_Levels'', ''Order_Frequency'', pearson x2 x3, fabs (pearson x2 x3)),
     (''Order_Frequency'', ''Supplier_Lead_Time'', pearson x3 x1, fabs (pearson x3 x1)),
     (''Delivery_Performance'', ''Supplier_Lead_Time'', pearson x4 x1, fabs (pearson x4 x1)),
     (''Delivery_Performance'', ''Inventory_Levels'', pearson x4 x2, fabs (pearson x4 x2)),
     (''Delivery_Performance'', ''Order_Frequency'', pearson x4 x3, fabs (pearson x4 x3)),
     (''Cost_Per_Unit'', ''Supplier_Lead_Time'', pearson x5 x1, fabs (pearson x5 x1)),
     (''Cost_Per_Unit'', ''Inventory_Levels'', pearson x5 x2, fabs (pearson x5 x2)),
     (''Cost_Per_Unit'', ''Order_Frequency'', pearson x5 x3, fabs (pearson x5 x3)),
     (''Cost_Per_Unit'', ''Delivery_Performance'', pearson x5 x4, fabs (pearson x5 x4))]"
  by (simp add: corr_pairs_of_def corr_def frame5_def unstack_def)

lemma example5_full_precision:
  "full_precision_top_pairs (get_recent_df (df_all example_gauss example_rng) 5) =
    [(''Cost_Per_Unit'', ''Delivery_Performance'', Num 1, Num 1),
     (''Inventory_Levels'', ''Supplier_Lead_Time'', Num (9999 / 10001), Num (9999 / 10001)),
     (''Inventory_Levels'', ''Order_Frequency'', Num 0, Num 0)]"
  unfolding full_precision_top_pairs_def top_pairs_of_def example_recent5_frame
    corr_pairs_unrounded_frame5 example5_pearson_21 example5_pearson_54 example5_pearson_zero
  by (simp add: sort_values_desc_def head_def abs_corr_def)

text \<open>
  The ranking does not use full precision: the matrix is rounded to three decimals on the line that
  computes it, and the ranking reads the rounded matrix. In the example dataset at
  \<open>N = 5\<close> the coefficient of Inventory_Levels and Supplier_Lead_Time is 9999/10001; its
  sort key is 1, which ties it with the exact 1 of Cost_Per_Unit and Delivery_Performance
  and ranks it first, where the unrounded coefficients rank it second.
\<close>

theorem ranking_rounded_counterexample:
  "pearson [389991 / 1000, 210009 / 1000, 3018 / 10, 2982 / 10, 300] [17, 7, 12, 12, 12]
     = Num (9999 / 10001)
   \<and> (''Inventory_Levels'', [389991 / 1000, 210009 / 1000, 3018 / 10, 2982 / 10, 300])
       \<in> set (columns (get_recent_df (df_all example_gauss example_rng) 5))
   \<and> (''Supplier_Lead_Time'', [17, 7, 12, 12, 12])
       \<in> set (columns (get_recent_df (df_all example_gauss example_rng) 5))
   \<and> top_pairs_of (corr_of (get_recent_df (df_all example_gauss example_rng) 5))
     = [(''Inventory_Levels'', ''Supplier_Lead_Time'', Num 1, Num 1),
        (''Cost_Per_Unit'', ''Delivery_Performance'', Num 1, Num 1),
        (''Inventory_Levels'', ''Order_Frequency'', Num 0, Num 0)]
   \<and> full_precision_top_pairs (get_recent_df (df_all example_gauss example_rng) 5)
     = [(''Cost_Per_Unit'', ''Delivery_Performance'', Num 1, Num 1),
        (''Inventory_Levels'', ''Supplier_Lead_Time'', Num (9999 / 10001), Num (9999 / 10001)),
        (''Inventory_Levels'', ''Order_Frequency'', Num 0, Num 0)]
   \<and> map pair_names (top_pairs_of (corr_of (get_recent_df (df_all example_gauss example_rng) 5)))
     \<noteq> map pair_names (full_precision_top_pairs (get_recent_df (df_all example_gauss example_rng) 5))"
proof (intro conjI)
  show "pearson [389991 / 1000, 210009 / 1000, 3018 / 10, 2982 / 10, 300] [17, 7, 12, 12, 12]
     = Num (9999 / 10001)"
    by (rule example5_pearson_21)
  show "(''Inventory_Levels'', [389991 / 1000, 210009 / 1000, 3018 / 10, 2982 / 10, 300])
       \<in> set (columns (get_recent_df (df_all example_gauss example_rng) 5))"
    by (simp add: example_recent5)
  show "(''Supplier_Lead_Time'', [17, 7, 12, 12, 12])
       \<in> set (columns (get_recent_df (df_all example_gauss example_rng) 5))"
    by (simp add: example_recent5)
  show "top_pairs_of (corr_of (get_recent_df (df_all example_gauss example_rng) 5))
     = [(''Inventory_Levels'', ''Supplier_Lead_Time'', Num 1, Num 1),
        (''Cost_Per_Unit'', ''Delivery_Performance'', Num 1, Num 1),
        (''Inventory_Levels'', ''Order_Frequency'', Num 0, Num 0)]"
    by (rule example5_top_pairs)
  show "full_precision_top_pairs (get_recent_df (df_all example_gauss example_rng) 5)
     = [(''Cost_Per_Unit'', ''Delivery_Performance'', Num 1, Num 1),
        (''Inventory_Levels'', ''Supplier_Lead_Time'', Num (9999 / 10001), Num (9999 / 10001)),
        (''Inventory_Levels'', ''Order_Frequency'', Num 0, Num 0)]"
    by (rule example5_full_precision)
  show "map pair_names (top_pairs_of (corr_of (get_recent_df (df_all example_gauss example_rng) 5)))
     \<noteq> map pair_names (full_precision_top_pairs (get_recent_df (df_all example_gauss example_rng) 5))"
    unfolding example5_top_pairs example5_full_precision by (simp add: pair_names_def)
qed

lemma summary_cells_frame5:
  assumes "(a, xs) \<in> set (columns (frame5 k x1 x2 x3 x4 x5))"
  shows "loc2 (projr (summary_of (frame5 k x1 x2 x3 x4 x5))) a ''mean'' = Inr (round_dec 2 (mean xs))
       \<and> loc2 (projr (summary_of (frame5 k x1 x2 x3 x4 x5))) a ''std'' = Inr (round_dec 2 (std xs))
       \<and> loc2 (projr (summary_of (frame5 k x1 x2 x3 x4 x5))) a ''min'' = Inr (round_dec 2 (fmin xs))
       \<and> loc2 (projr (summary_of (frame5 k x1 x2 x3 x4 x5))) a ''50%'' = Inr (round_dec 2 (quantile (1 / 2) xs))
       \<and> loc2 (projr (summary_of (frame5 k x1 x2 x3 x4 x5))) a ''max'' = Inr (round_dec 2 (fmax xs))"
proof -
  have d: "a = ''Supplier_Lead_Time'' \<and> xs = x1 \<or> a = ''Inventory_Levels'' \<and> xs = x2
    \<or> a = ''Order_Frequency'' \<and> xs = x3 \<or> a = ''Delivery_Performance'' \<and> xs = x4
    \<or> a = ''Cost_Per_Unit'' \<and> xs = x5"
    using assms by (simp add: frame5_def)
  then show ?thesis
    by (elim disjE conjE) (simp_all add: summary_of_frame5 loc2_def)
qed

lemma top_pairs_sorted:
  assumes "i < j" "j < length (top_pairs_of c)" "\<not> isna (abs_corr (top_pairs_of c ! j))"
  shows "the_num (abs_corr (top_pairs_of c ! j)) \<le> the_num (abs_corr (top_pairs_of c ! i))"
proof -
  let ?S = "sort_values_desc abs_corr (corr_pairs_of c)"
  have j: "j < 3" "j < length ?S" using assms(2) by (simp_all add: top_pairs_of_def head_def)
  have "\<not> isna (abs_corr (?S ! j))" using assms(3) j by (simp add: top_pairs_of_def head_def)
  then have "the_num (abs_corr (?S ! j)) \<le> the_num (abs_corr (?S ! i))"
    using sort_values_desc_sorted[OF assms(1) j(2)] by blast
  then show ?thesis using assms(1) j by (simp add: top_pairs_of_def head_def)
qed

text \<open>
  Claim C3, as the code has it. The summary is rounded to two decimals and then only
  shown (its cells are the rounded statistics of the subset's columns, and the narrative
  reads its means). The correlation matrix is rounded to three decimals as soon as it is
  computed, and the table shown, the heat map and the ranking all read the rounded matrix:
  every ranked pair carries the Pearson coefficient of its two columns rounded to three
  decimals, its sort key is the absolute value of that rounded coefficient, and the
  ranked pairs are in descending order of these keys.
\<close>

theorem ranking_on_rounded_matrix:
  "corr_of (get_recent_df (df_all g s0) N) = round_table 3 (corr (get_recent_df (df_all g s0) N))
   \<and> (\<forall>r \<in> set (top_pairs_of (corr_of (get_recent_df (df_all g s0) N))).
        \<exists>xs ys. (fst r, xs) \<in> set (columns (get_recent_df (df_all g s0) N))
          \<and> (fst (snd r), ys) \<in> set (columns (get_recent_df (df_all g s0) N))
          \<and> fst (snd (snd r)) = round_dec 3 (pearson xs ys)
          \<and> abs_corr r = fabs (round_dec 3 (pearson xs ys)))
   \<and> (\<forall>i j. i < j \<and> j < length (top_pairs_of (corr_of (get_recent_df (df_all g s0) N)))
          \<and> \<not> isna (abs_corr (top_pairs_of (corr_of (get_recent_df (df_all g s0) N)) ! j))
        \<longrightarrow> the_num (abs_corr (top_pairs_of (corr_of (get_recent_df (df_all g s0) N)) ! j))
            \<le> the_num (abs_corr (top_pairs_of (corr_of (get_recent_df (df_all g s0) N)) ! i)))
   \<and> (\<exists>summary.
        summary_of (get_recent_df (df_all g s0) N) = Inr summary
        \<and> (\<forall>(a, xs) \<in> set (columns (get_recent_df (df_all g s0) N)).
              loc2 summary a ''mean'' = Inr (round_dec 2 (mean xs))
              \<and> loc2 summary a ''std'' = Inr (round_dec 2 (std xs))
              \<and> loc2 summary a ''min'' = Inr (round_dec 2 (fmin xs))
              \<and> loc2 summary a ''50%'' = Inr (round_dec 2 (quantile (1 / 2) xs))
              \<and> loc2 summary a ''max'' = Inr (round_dec 2 (fmax xs)))
        \<and> (\<exists>narrative title.
              render_analysis (df_all g s0) N =
                Inr [Markdown (narrative @ concat (map pair_line
                        (top_pairs_of (corr_of (get_recent_df (df_all g s0) N))))),
                     Markdown [Str ''**Correlation matrix:**''],
                     ShowTable (corr_of (get_recent_df (df_all g s0) N)),
                     Heatmap title (corr_of (get_recent_df (df_all g s0) N)),
                     Markdown [Str ''**Summary statistics (selected subset):**''],
                     ShowTable summary]))"
proof -
  let ?sub = "get_recent_df (df_all g s0) N"
  obtain x1 x2 x3 x4 x5 where
    f: "?sub = frame5 (nat (max 2 (min N 74))) x1 x2 x3 x4 x5"
    using recent_frame5 by blast
  have 1: "corr_of ?sub = round_table 3 (corr ?sub)" by (simp add: corr_of_def)
  have 2: "\<exists>xs ys. (fst r, xs) \<in> set (columns ?sub) \<and> (fst (snd r), ys) \<in> set (columns ?sub)
          \<and> fst (snd (snd r)) = round_dec 3 (pearson xs ys)
          \<and> abs_corr r = fabs (round_dec 3 (pearson xs ys))"
    if "r \<in> set (top_pairs_of (corr_of ?sub))" for r
  proof -
    have "r \<in> set (corr_pairs_of (corr_of ?sub))" using that top_pairs_subset by blast
    then show ?thesis using corr_pairs_row by blast
  qed
  have 3: "the_num (abs_corr (top_pairs_of (corr_of ?sub) ! j))
            \<le> the_num (abs_corr (top_pairs_of (corr_of ?sub) ! i))"
    if "i < j \<and> j < length (top_pairs_of (corr_of ?sub))
          \<and> \<not> isna (abs_corr (top_pairs_of (corr_of ?sub) ! j))" for i j
    using that top_pairs_sorted by blast
  have s: "summary_of ?sub = Inr (projr (summary_of ?sub))"
    unfolding f summary_of_frame5 by simp
  have 4: "loc2 (projr (summary_of ?sub)) a ''mean'' = Inr (round_dec 2 (mean xs))
         \<and> loc2 (projr (summary_of ?sub)) a ''std'' = Inr (round_dec 2 (std xs))
         \<and> loc2 (projr (summary_of ?sub)) a ''min'' = Inr (round_dec 2 (fmin xs))
         \<and> loc2 (projr (summary_of ?sub)) a ''50%'' = Inr (round_dec 2 (quantile (1 / 2) xs))
         \<and> loc2 (projr (summary_of ?sub)) a ''max'' = Inr (round_dec 2 (fmax xs))"
    if "(a, xs) \<in> set (columns ?sub)" for a xs
    using that summary_cells_frame5 unfolding f by blast
  have 5: "\<exists>narrative title.
      render_analysis (df_all g s0) N =
        Inr [Markdown (narrative @ concat (map pair_line (top_pairs_of (corr_of ?sub)))),
             Markdown [Str ''**Correlation matrix:**''],
             ShowTable (corr_of ?sub),
             Heatmap title (corr_of ?sub),
             Markdown [Str ''**Summary statistics (selected subset):**''],
             ShowTable (projr (summary_of ?sub))]"
    using render_analysis_frame5[OF f] by blast
  have 45: "\<exists>summary.
        summary_of ?sub = Inr summary
        \<and> (\<forall>(a, xs) \<in> set (columns ?sub).
              loc2 summary a ''mean'' = Inr (round_dec 2 (mean xs))
              \<and> loc2 summary a ''std'' = Inr (round_dec 2 (std xs))
              \<and> loc2 summary a ''min'' = Inr (round_dec 2 (fmin xs))
              \<and> loc2 summary a ''50%'' = Inr (round_dec 2 (quantile (1 / 2) xs))
              \<and> loc2 summary a ''max'' = Inr (round_dec 2 (fmax xs)))
        \<and> (\<exists>narrative title.
              render_analysis (df_all g s0) N =
                Inr [Markdown (narrative @ concat (map pair_line (top_pairs_of (corr_of ?sub)))),
                     Markdown [Str ''**Correlation matrix:**''],
                     ShowTable (corr_of ?sub),
                     Heatmap title (corr_of ?sub),
                     Markdown [Str ''**Summary statistics (selected subset):**''],
                     ShowTable summary])"
    apply (rule exI[of _ "projr (summary_of ?sub)"])
    using s 4 5 by (intro conjI ballI) auto
  show ?thesis
    using 1 2 3 45 by (intro conjI ballI allI impI) blast+
qed

text \<open>The example dataset at \<open>N = 5\<close>: the pair ranked first and the first two keys.\<close>

theorem ranking_on_rounded_matrix_witness:
  "(''Inventory_Levels'', ''Supplier_Lead_Time'', Num 1, Num 1)
      \<in> set (top_pairs_of (corr_of (get_recent_df (df_all example_gauss example_rng) 5)))
   \<and> (\<exists>xs ys. (''Inventory_Levels'', xs) \<in> set (columns (get_recent_df (df_all example_gauss example_rng) 5))
          \<and> (''Supplier_Lead_Time'', ys) \<in> set (columns (get_recent_df (df_all example_gauss example_rng) 5))
          \<and> Num 1 = round_dec 3 (pearson xs ys))
   \<and> (0::nat) < 1
   \<and> 1 < length (top_pairs_of (corr_of (get_recent_df (df_all example_gauss example_rng) 5)))
   \<and> \<not> isna (abs_corr (top_pairs_of (corr_of (get_recent_df (df_all example_gauss example_rng) 5)) ! 1))
   \<and> the_num (abs_corr (top_pairs_of (corr_of (get_recent_df (df_all example_gauss example_rng) 5)) ! 1))
      \<le> the_num (abs_corr (top_pairs_of (corr_of (get_recent_df (df_all example_gauss example_rng) 5)) ! 0))"
proof -
  note t = ranking_on_rounded_matrix[of example_gauss example_rng 5]
  have m: "(''Inventory_Levels'', ''Supplier_Lead_Time'', Num 1, Num 1)
      \<in> set (top_pairs_of (corr_of (get_recent_df (df_all example_gauss example_rng) 5)))"
    by (simp add: example5_top_pairs)
  have e: "\<exists>xs ys. (fst (''Inventory_Levels'', ''Supplier_Lead_Time'', Num 1, Num 1), xs)
            \<in> set (columns (get_recent_df (df_all example_gauss example_rng) 5))
          \<and> (fst (snd (''Inventory_Levels'', ''Supplier_Lead_Time'', Num 1, Num 1)), ys)
            \<in> set (columns (get_recent_df (df_all example_gauss example_rng) 5))
          \<and> fst (snd (snd (''Inventory_Levels'', ''Supplier_Lead_Time'', Num 1, Num 1)))
            = round_dec 3 (pearson xs ys)"
    using t m by blast
  have h: "(0::nat) < 1
   \<and> 1 < length (top_pairs_of (corr_of (get_recent_df (df_all example_gauss example_rng) 5)))
   \<and> \<not> isna (abs_corr (top_pairs_of (corr_of (get_recent_df (df_all example_gauss example_rng) 5)) ! 1))"
    by (simp add: example5_top_pairs abs_corr_def)
  have a: "the_num (abs_corr (top_pairs_of (corr_of (get_recent_df (df_all example_gauss example_rng) 5)) ! 1))
      \<le> the_num (abs_corr (top_pairs_of (corr_of (get_recent_df (df_all example_gauss example_rng) 5)) ! 0))"
    using t h by blast
  show ?thesis using m e h a by simp
qed

section \<open>The dataset is never written\<close>

lemma insort_key_map: "insort_key k (f x) (map f xs) = map f (insort_key (\<lambda>y. k (f y)) x xs)"
  by (induction xs) simp_all

lemma sort_key_map: "sort_key k (map f xs) = map f (sort_key (\<lambda>y. k (f y)) xs)"
  by (induction xs) (simp_all add: insort_key_map)

lemma sort_values_desc_map:
  "sort_values_desc k (map f xs) = map f (sort_values_desc (\<lambda>y. k (f y)) xs)"
  by (simp add: sort_values_desc_def Let_def filter_map rev_map sort_key_map o_def)

lemma get_recent_df_st_eval:
  assumes "objs h a = Some (Frame D)" "a < fresh h"
  shows "get_recent_df_st a N h =
     Some (Suc (fresh h),
           \<lparr>objs = (objs h)(fresh h \<mapsto> View a (max 2 N),
                             Suc (fresh h) \<mapsto> Frame (get_recent_df D N)),
            fresh = Suc (Suc (fresh h))\<rparr>)"
  using assms
  by (simp add: get_recent_df_st_def tail_st_def alloc_def reset_index_drop_st_def read_frame_def
      get_recent_df_def Let_def max_def)

lemma summary_of_parts:
  assumes "summary_of df = Inr summary"
  shows "\<exists>d sel. describe df = Inr d
           \<and> loc_rows [''mean'', ''std'', ''min'', ''50%'', ''max''] d = Inr sel
           \<and> summary = round_table 2 (transpose_T sel)"
  using assms by (auto simp: summary_of_def split: sum.splits)

lemma position_names:
  "position ''var1'' [''var1'', ''var2'', ''corr''] = Some 0"
  "position ''var2'' [''var1'', ''var2'', ''corr''] = Some 1"
  "position ''corr'' [''var1'', ''var2'', ''corr''] = Some 2"
  "position ''var1'' [''var1'', ''var2'', ''corr'', ''abs_corr''] = Some 0"
  "position ''var2'' [''var1'', ''var2'', ''corr'', ''abs_corr''] = Some 1"
  "position ''corr'' [''var1'', ''var2'', ''corr'', ''abs_corr''] = Some 2"
  "position ''abs_corr'' [''var1'', ''var2'', ''corr'', ''abs_corr''] = Some 3"
  by simp_all

lemma store_lines:
  "mapO (row_line [''var1'', ''var2'', ''corr'', ''abs_corr''])
     (head 3
       (sort_values_desc (cell 3)
         (map (\<lambda>(v1, v2, cells). (v1, v2, cells @ [fabs (cells ! 0)]))
           (filter (\<lambda>r. label 0 r < label (Suc 0) r)
             (map (\<lambda>(c, r, v). (c, r, [v])) (unstack t))))))
   = Some (map pair_line (top_pairs_of t))"
proof -
  define R where "R = filter (\<lambda>(var1, var2, v). var1 < var2) (unstack t)"
  define H :: "string \<times> string \<times> float64 \<Rightarrow> long_row"
    where "H = (\<lambda>(c, r, v). (c, r, [v, fabs v]))"
  define G :: "string \<times> string \<times> float64 \<Rightarrow> string \<times> string \<times> float64 \<times> float64"
    where "G = (\<lambda>(c, r, v). (c, r, v, fabs v))"
  define K :: "string \<times> string \<times> float64 \<Rightarrow> float64" where "K = (\<lambda>(c, r, v). fabs v)"
  have 1: "filter (\<lambda>r. label 0 r < label (Suc 0) r) (map (\<lambda>(c, r, v). (c, r, [v])) (unstack t))
      = map (\<lambda>(c, r, v). (c, r, [v])) R"
    by (simp add: R_def filter_map o_def label_def split_def)
  have 2: "map (\<lambda>(v1, v2, cells). (v1, v2, cells @ [fabs (cells ! 0)])) (map (\<lambda>(c, r, v). (c, r, [v])) R)
      = map H R"
    by (simp add: H_def o_def split_def)
  have kH: "(\<lambda>y. cell 3 (H y)) = K"
    by (rule ext) (simp add: H_def K_def cell_def split_def)
  have kG: "(\<lambda>y. abs_corr (G y)) = K"
    by (rule ext) (simp add: G_def K_def abs_corr_def split_def)
  have 3: "head 3 (sort_values_desc (cell 3) (map H R)) = map H (head 3 (sort_values_desc K R))"
    by (simp add: sort_values_desc_map kH head_def take_map)
  have 4: "top_pairs_of t = map G (head 3 (sort_values_desc K R))"
    by (simp add: top_pairs_of_def corr_pairs_of_def Let_def R_def[symmetric] G_def[symmetric]
        sort_values_desc_map kG head_def take_map)
  have 5: "row_line [''var1'', ''var2'', ''corr'', ''abs_corr''] (H x) = Some (pair_line (G x))" for x
    by (simp add: row_line_def position_names H_def G_def pair_line_def label_def cell_def
        split_def del: position.simps)
  have "mapO (row_line [''var1'', ''var2'', ''corr'', ''abs_corr'']) (map H xs)
      = Some (map pair_line (map G xs))" for xs
    by (induction xs) (simp_all add: 5)
  then show ?thesis
    unfolding 1 2 3 4 by simp
qed

text \<open>
  A run of the callback on a store, given that the summary of the subset is computed
  without error: what it shows is what the callback without a store shows, and no object
  that was there before the run has changed.
\<close>

lemma render_analysis_st_eval:
  assumes D: "objs h a = Some (Frame D)" "a < fresh h"
    and S: "summary_of (get_recent_df D N) = Inr summary"
    and M: "loc2 summary ''Supplier_Lead_Time'' ''mean'' = Inr m1"
      "loc2 summary ''Inventory_Levels'' ''mean'' = Inr m2"
      "loc2 summary ''Delivery_Performance'' ''mean'' = Inr m3"
  shows "\<exists>out h'. render_analysis_st a N h = Some (out, h')
           \<and> render_analysis D N = Inr out
           \<and> (\<forall>b < fresh h. objs h' b = objs h b)
           \<and> fresh h \<le> fresh h'"
proof -
  obtain d sel where d: "describe (get_recent_df D N) = Inr d"
    "loc_rows [''mean'', ''std'', ''min'', ''50%'', ''max''] d = Inr sel"
    "summary = round_table 2 (transpose_T sel)"
    using summary_of_parts[OF S] by blast
  have M': "loc2 (round_table 2 (transpose_T sel)) ''Supplier_Lead_Time'' ''mean'' = Inr m1"
      "loc2 (round_table 2 (transpose_T sel)) ''Inventory_Levels'' ''mean'' = Inr m2"
      "loc2 (round_table 2 (transpose_T sel)) ''Delivery_Performance'' ''mean'' = Inr m3"
    using M d(3) by simp_all
  have pure: "render_analysis D N =
     Inr [Markdown
            ([Str (nl @ ''### Interactive analysis (using last **''),
              IntF N,
              Str (''** rows)'' @ nl @ nl @ ''**Observations (dynamically computed):**'' @ nl
                   @ ''- Mean Supplier Lead Time: **''),
              FloatF m1,
              Str (''** days  '' @ nl @ ''- Mean Inventory Level: **''),
              FloatF m2,
              Str (''** units  '' @ nl @ ''- Delivery Performance (mean): **''),
              FloatF m3,
              Str (''** %'' @ nl @ nl @ ''**Top correlations (absolute value):**'' @ nl)]
             @ concat (map pair_line (top_pairs_of (round_table 3 (corr (get_recent_df D N)))))),
          Markdown [Str ''**Correlation matrix:**''],
          ShowTable (round_table 3 (corr (get_recent_df D N))),
          Heatmap [Str (''Correlation Heatmap '' @ emdash @ '' last ''), IntF N, Str '' rows'']
            (round_table 3 (corr (get_recent_df D N))),
          Markdown [Str ''**Summary statistics (selected subset):**''],
          ShowTable (round_table 2 (transpose_T sel))]"
    unfolding render_analysis_def Let_def S corr_of_def
    using M d(3) by simp
  show ?thesis
    unfolding render_analysis_st_def get_recent_df_st_eval[OF D] pure
    using D(2)
    by (simp add: describe_st_def loc_rows_st_def transpose_st_def round_st_def corr_st_def
        loc2_st_def unstack_reset_index_st_def set_columns_def filter_less_st_def copy_st_def
        setitem_abs_def sort_values_st_def head_st_def read_frame_def read_table_def read_long_def
        alloc_def ok_def d M' position_names store_lines del: position.simps)
qed

lemma get_recent_df_st_fresh:
  assumes D: "objs h a = Some (Frame D)" "a < fresh h"
  shows "\<exists>r h1. get_recent_df_st a N h = Some (r, h1)
           \<and> objs h1 r = Some (Frame (get_recent_df D N))
           \<and> r \<noteq> a
           \<and> read_frame h1 a = Some D
           \<and> (\<forall>b < fresh h. objs h1 b = objs h b)
           \<and> (\<forall>i c v h2. iloc_set r i c v h1 = Some h2 \<longrightarrow> read_frame h2 a = Some D)"
  unfolding get_recent_df_st_eval[OF D]
  using D by (auto simp: read_frame_def iloc_set_def split: if_splits)

text \<open>
  By contrast the object \<open>tail\<close> returns inside \<open>get_recent_df\<close> is a view: a cell
  written through it lands in the frame it is a view on.
\<close>

lemma tail_st_is_view:
  assumes D: "objs h a = Some (Frame D)" "a < fresh h"
    and w: "tail_st n a h = Some (t, h1)" "iloc_set t i c v h1 = Some h2"
  shows "read_frame h2 a
         = Some (set_cell (length (index D) - length (index (tail n D)) + i) c v D)"
  using D w
  by (auto simp: tail_st_def alloc_def iloc_set_def read_frame_def split: if_splits)

text \<open>
  Claim C9. With the dataset held by an object of the store, \<open>get_recent_df\<close> returns a
  new object that owns its rows (not the view that \<open>tail\<close> made on the way): it holds the
  last rows of the dataset, and writing a cell of it leaves the dataset as it was. A full
  run of \<open>render_analysis\<close> succeeds, shows what the callback is specified to show, and
  leaves the dataset, and every other object that existed before the run, unchanged, for
  every \<open>N\<close>.
\<close>

theorem dataset_never_mutated:
  "objs h a = Some (Frame (df_all g s0)) \<and> a < fresh h \<longrightarrow>
     (\<exists>r h1. get_recent_df_st a N h = Some (r, h1)
        \<and> objs h1 r = Some (Frame (get_recent_df (df_all g s0) N))
        \<and> r \<noteq> a
        \<and> read_frame h1 a = Some (df_all g s0)
        \<and> (\<forall>i c v h2. iloc_set r i c v h1 = Some h2 \<longrightarrow> read_frame h2 a = Some (df_all g s0)))
     \<and> (\<exists>out h'. render_analysis_st a N h = Some (out, h')
        \<and> render_analysis (df_all g s0) N = Inr out
        \<and> read_frame h' a = Some (df_all g s0)
        \<and> (\<forall>b < fresh h. objs h' b = objs h b))"
proof (intro impI, elim conjE)
  assume D: "objs h a = Some (Frame (df_all g s0))" "a < fresh h"
  obtain x1 x2 x3 x4 x5 where
    f: "get_recent_df (df_all g s0) N = frame5 (nat (max 2 (min N 74))) x1 x2 x3 x4 x5"
    using recent_frame5 by blast
  have S: "summary_of (get_recent_df (df_all g s0) N)
      = Inr (projr (summary_of (get_recent_df (df_all g s0) N)))"
    unfolding f summary_of_frame5 by simp
  have M: "loc2 (projr (summary_of (get_recent_df (df_all g s0) N))) ''Supplier_Lead_Time'' ''mean''
        = Inr (round_dec 2 (mean x1))"
    "loc2 (projr (summary_of (get_recent_df (df_all g s0) N))) ''Inventory_Levels'' ''mean''
        = Inr (round_dec 2 (mean x2))"
    "loc2 (projr (summary_of (get_recent_df (df_all g s0) N))) ''Delivery_Performance'' ''mean''
        = Inr (round_dec 2 (mean x4))"
    unfolding f using summary_cells_frame5[of _ _ "nat (max 2 (min N 74))" x1 x2 x3 x4 x5]
    by (simp_all add: frame5_def)
  obtain out h' where r: "render_analysis_st a N h = Some (out, h')"
    "render_analysis (df_all g s0) N = Inr out" "\<forall>b < fresh h. objs h' b = objs h b"
    using render_analysis_st_eval[OF D S M] by blast
  have "read_frame h' a = Some (df_all g s0)"
    using r(3) D by (simp add: read_frame_def)
  then have 2: "\<exists>out h'. render_analysis_st a N h = Some (out, h')
        \<and> render_analysis (df_all g s0) N = Inr out
        \<and> read_frame h' a = Some (df_all g s0)
        \<and> (\<forall>b < fresh h. objs h' b = objs h b)"
    using r by blast
  have 1: "\<exists>r h1. get_recent_df_st a N h = Some (r, h1)
        \<and> objs h1 r = Some (Frame (get_recent_df (df_all g s0) N))
        \<and> r \<noteq> a
        \<and> read_frame h1 a = Some (df_all g s0)
        \<and> (\<forall>i c v h2. iloc_set r i c v h1 = Some h2 \<longrightarrow> read_frame h2 a = Some (df_all g s0))"
    using get_recent_df_st_fresh[OF D, of N] by blast
  show "(\<exists>r h1. get_recent_df_st a N h = Some (r, h1)
        \<and> objs h1 r = Some (Frame (get_recent_df (df_all g s0) N))
        \<and> r \<noteq> a
        \<and> read_frame h1 a = Some (df_all g s0)
        \<and> (\<forall>i c v h2. iloc_set r i c v h1 = Some h2 \<longrightarrow> read_frame h2 a = Some (df_all g s0)))
     \<and> (\<exists>out h'. render_analysis_st a N h = Some (out, h')
        \<and> render_analysis (df_all g s0) N = Inr out
        \<and> read_frame h' a = Some (df_all g s0)
        \<and> (\<forall>b < fresh h. objs h' b = objs h b))"
    using 1 2 by (rule conjI)
qed

text \<open>A store that holds the example dataset as its only object, at \<open>N = 5\<close>.\<close>

theorem dataset_never_mutated_witness:
  "objs \<lparr>objs = [0 \<mapsto> Frame (df_all example_gauss example_rng)], fresh = 1\<rparr> 0
     = Some (Frame (df_all example_gauss example_rng))
   \<and> (0::nat) < fresh \<lparr>objs = [0 \<mapsto> Frame (df_all example_gauss example_rng)], fresh = 1\<rparr>
   \<and> (\<exists>out h'. render_analysis_st 0 5
          \<lparr>objs = [0 \<mapsto> Frame (df_all example_gauss example_rng)], fresh = 1\<rparr> = Some (out, h')
        \<and> render_analysis (df_all example_gauss example_rng) 5 = Inr out
        \<and> read_frame h' 0 = Some (df_all example_gauss example_rng))
   \<and> (\<exists>r h1. get_recent_df_st 0 5
          \<lparr>objs = [0 \<mapsto> Frame (df_all example_gauss example_rng)], fresh = 1\<rparr> = Some (r, h1)
        \<and> r \<noteq> 0
        \<and> objs h1 r = Some (Frame (get_recent_df (df_all example_gauss example_rng) 5)))"
proof -
  let ?h = "\<lparr>objs = [0 \<mapsto> Frame (df_all example_gauss example_rng)], fresh = 1\<rparr>"
  have p: "objs ?h 0 = Some (Frame (df_all example_gauss example_rng)) \<and> (0::nat) < fresh ?h"
    by simp
  note t = dataset_never_mutated[of ?h 0 example_gauss example_rng 5, rule_format, OF p]
  show ?thesis
    using p t by blast
qed

end
